theory Spec2Isabelle
  imports Main "HOL-Library.AList"
begin

section \<open>Data model of package pivot\<close>

text \<open>
  The embedding follows \<^verbatim>\<open>pkg/pivot/pivot.go\<close>. A Go panic is a value of type
  \<open>panic\<close>; a function that can panic returns \<open>'a res\<close>. A Go \<^verbatim>\<open>error\<close> value is
  its message.
\<close>

type_synonym err = string

datatype panic =
    NilDeref                 \<comment> \<open>nil pointer dereference\<close>
  | IndexOutOfRange          \<comment> \<open>index out of range\<close>
  | SliceBounds              \<comment> \<open>slice bounds out of range\<close>
  | PanicErr err             \<comment> \<open>\<^verbatim>\<open>panic(err)\<close>\<close>
  | VerifyFailed string      \<comment> \<open>\<^verbatim>\<open>panic("data verified failed ...")\<close>, with the query\<close>

datatype 'a res = Panic panic | Ok 'a

text \<open>
  \<^verbatim>\<open>connection.QueryItem\<close> is declared outside this file; the code reads its fields
  \<^verbatim>\<open>Null\<close>, \<^verbatim>\<open>ValString\<close> and \<^verbatim>\<open>ValType\<close>, the last one only through
  \<^verbatim>\<open>ValType.Name()\<close>: \<open>ValType_Name\<close> is that string (the \<^verbatim>\<open>ValType\<close> of a cell
  is taken to be set). Cells are handled through pointers
  \<^verbatim>\<open>*connection.QueryItem\<close>: \<open>None\<close> is the nil pointer.
\<close>

record QueryItem =
  Null :: bool
  ValType_Name :: string
  ValString :: string

type_synonym QueryItemPtr = "QueryItem option"

text \<open>\<^verbatim>\<open>TableColumn{i.Name.O, c.ValType.Name()}\<close>: a struct of two strings, read in
  \<^verbatim>\<open>verify\<close> as \<^verbatim>\<open>c.Table\<close> and \<^verbatim>\<open>c.Name\<close>.\<close>

record TableColumn =
  Table :: string
  Name :: string

text \<open>
  A Go map \<^verbatim>\<open>map[TableColumn]*connection.QueryItem\<close> is an association list read
  through \<open>map_of\<close> and written with \<open>AList.update\<close>. Indexing a map with a key it
  does not hold yields the zero value, the nil pointer.
\<close>

type_synonym PivotRows = "(TableColumn \<times> QueryItemPtr) list"

definition lookup :: "PivotRows \<Rightarrow> TableColumn \<Rightarrow> QueryItemPtr" where
  "lookup originRow c = (case map_of originRow c of None \<Rightarrow> None | Some v \<Rightarrow> v)"

section \<open>Comparison of cells\<close>

text \<open>
  \<^verbatim>\<open>
  func compareQueryItem(left *connection.QueryItem, right *connection.QueryItem) bool {
      if left.ValType.Name() != right.ValType.Name() { return false }
      if left.Null != right.Null { return false }
      return (left.Null && right.Null) || (left.ValString == right.ValString)
  }
  \<close>
  Both pointers are dereferenced by the first comparison.
\<close>

fun compareQueryItem :: "QueryItemPtr \<Rightarrow> QueryItemPtr \<Rightarrow> bool res" where
  "compareQueryItem None right = Panic NilDeref"
| "compareQueryItem (Some left) None = Panic NilDeref"
| "compareQueryItem (Some left) (Some right) =
     (if ValType_Name left \<noteq> ValType_Name right then Ok False
      else if Null left \<noteq> Null right then Ok False
      else Ok ((Null left \<and> Null right) \<or> ValString left = ValString right))"

section \<open>Verification\<close>

text \<open>
  \<^verbatim>\<open>
  func (p *Pivot) checkRow(originRow map[TableColumn]*connection.QueryItem,
          columns []TableColumn, resultSet []*connection.QueryItem) bool {
      for i, c := range columns {
          fmt.Printf("...", i, c, originRow[c], resultSet[i])
          if !compareQueryItem(originRow[c], resultSet[i]) { return false }
      }
      return true
  }
  \<close>
  \<open>checkRow_from\<close> is the loop from index \<open>i\<close> on. The print statement reads
  \<^verbatim>\<open>resultSet[i]\<close>, which panics when the row has no cell \<open>i\<close>; the comparison
  dereferences both cells.
\<close>

fun checkRow_from ::
  "PivotRows \<Rightarrow> TableColumn list \<Rightarrow> QueryItemPtr list \<Rightarrow> nat \<Rightarrow> bool res" where
  "checkRow_from originRow [] resultSet i = Ok True"
| "checkRow_from originRow (c # columns) resultSet i =
     (if length resultSet \<le> i then Panic IndexOutOfRange
      else case compareQueryItem (lookup originRow c) (resultSet ! i) of
             Panic e \<Rightarrow> Panic e
           | Ok b \<Rightarrow> if \<not> b then Ok False
                     else checkRow_from originRow columns resultSet (i + 1))"

definition checkRow :: "PivotRows \<Rightarrow> TableColumn list \<Rightarrow> QueryItemPtr list \<Rightarrow> bool res" where
  "checkRow originRow columns resultSet = checkRow_from originRow columns resultSet 0"

text \<open>
  \<^verbatim>\<open>verify\<close> prints the pivot row (reading \<^verbatim>\<open>v.Null\<close> of every value \<^verbatim>\<open>v\<close> of
  the map, \<open>print_originRow\<close>), prints the columns, returns true at the first row
  that \<^verbatim>\<open>checkRow\<close> accepts (\<open>checkRows\<close>), and otherwise prints the result set
  (\<open>print_data\<close>, reading \<^verbatim>\<open>columns[j]\<close> and \<^verbatim>\<open>c.ValType\<close> for every cell
  \<^verbatim>\<open>c\<close> at index \<^verbatim>\<open>j\<close> of every row) and returns false. The text printed is not
  modelled; the panics of the reads are.
  \<^verbatim>\<open>
  for k, v := range originRow { fmt.Printf("...", k, v.Null, v.ValString) }
  for _, c := range columns { fmt.Printf("...", c.Table, c.Name) }
  for _, row := range resultSets {
      if p.checkRow(originRow, columns, row) { return true }
  }
  for i, r := range resultSets {
      for j, c := range r {
          fmt.Printf("...", columns[j].Table, columns[j].Name, c.ValType.Name(), c.ValString)
      }
  }
  return false
  \<close>
\<close>

definition print_originRow :: "PivotRows \<Rightarrow> unit res" where
  "print_originRow originRow =
     (if list_ex (\<lambda>k. map_of originRow k = Some None) (map fst originRow)
      then Panic NilDeref else Ok ())"

fun checkRows :: "PivotRows \<Rightarrow> TableColumn list \<Rightarrow> QueryItemPtr list list \<Rightarrow> bool res" where
  "checkRows originRow columns [] = Ok False"
| "checkRows originRow columns (row # resultSets) =
     (case checkRow originRow columns row of
        Panic e \<Rightarrow> Panic e
      | Ok b \<Rightarrow> if b then Ok True else checkRows originRow columns resultSets)"

fun print_row :: "TableColumn list \<Rightarrow> QueryItemPtr list \<Rightarrow> nat \<Rightarrow> unit res" where
  "print_row columns [] j = Ok ()"
| "print_row columns (c # r) j =
     (if length columns \<le> j then Panic IndexOutOfRange
      else case c of None \<Rightarrow> Panic NilDeref
           | Some item \<Rightarrow> print_row columns r (j + 1))"

fun print_data :: "TableColumn list \<Rightarrow> QueryItemPtr list list \<Rightarrow> unit res" where
  "print_data columns [] = Ok ()"
| "print_data columns (r # resultSets) =
     (case print_row columns r 0 of
        Panic e \<Rightarrow> Panic e
      | Ok u \<Rightarrow> print_data columns resultSets)"

definition verify ::
  "PivotRows \<Rightarrow> TableColumn list \<Rightarrow> QueryItemPtr list list \<Rightarrow> bool res" where
  "verify originRow columns resultSets =
     (case print_originRow originRow of
        Panic e \<Rightarrow> Panic e
      | Ok u \<Rightarrow>
         (case checkRows originRow columns resultSets of
            Panic e \<Rightarrow> Panic e
          | Ok b \<Rightarrow>
             if b then Ok True
             else (case print_data columns resultSets of
                     Panic e \<Rightarrow> Panic e
                   | Ok u' \<Rightarrow> Ok False)))"

text \<open>
  The inputs a result set of the database gives: no nil pointer among the recorded
  cells or the result cells, and result rows of one length.
\<close>

definition well_formed :: "PivotRows \<Rightarrow> QueryItemPtr list list \<Rightarrow> bool" where
  "well_formed originRow resultSets \<longleftrightarrow>
     (\<forall>k\<in>set (map fst originRow). map_of originRow k \<noteq> Some None) \<and>
     (\<forall>row\<in>set resultSets. None \<notin> set row) \<and>
     (\<forall>r1\<in>set resultSets. \<forall>r2\<in>set resultSets. length r1 = length r2)"

text \<open>
  The alignment of the output columns with the pivot row and the result rows: every
  output column has a recorded cell, and every result row has one cell per output
  column.
\<close>

definition aligned ::
  "PivotRows \<Rightarrow> TableColumn list \<Rightarrow> QueryItemPtr list list \<Rightarrow> bool" where
  "aligned originRow columns resultSets \<longleftrightarrow>
     well_formed originRow resultSets \<and>
     (\<forall>c\<in>set columns. lookup originRow c \<noteq> None) \<and>
     (\<forall>row\<in>set resultSets. length row = length columns)"
section \<open>The environment\<close>

text \<open>
  The table descriptors of the schema snapshot. \<^verbatim>\<open>model.CIStr\<close> and the type of a
  column descriptor are declared outside this file; the code reads \<^verbatim>\<open>Name.O\<close> of a
  table (also when it formats \<^verbatim>\<open>i.Name\<close> with \<^verbatim>\<open>%s\<close>) and never looks into a
  column descriptor.
\<close>

typedecl Column

record CIStr =
  CIStr_O :: string

record Table =
  Table_Name :: CIStr
  Columns :: "Column list"
  Indexes :: "CIStr list"

text \<open>
  A Go slice: its elements (\<open>length (elems s)\<close> is \<^verbatim>\<open>len(s)\<close>) and the rest of its
  backing array (\<^verbatim>\<open>cap(s)\<close> is \<open>length (elems s) + length (spare s)\<close>). The slice
  expression \<^verbatim>\<open>s[:n]\<close> is checked against the capacity.
\<close>

record 'a slice =
  elems :: "'a list"
  spare :: "'a list"

definition slice_to :: "'a slice \<Rightarrow> int \<Rightarrow> 'a list res" where
  "slice_to s n =
     (if 0 \<le> n \<and> n \<le> int (length (elems s) + length (spare s))
      then Ok (take (nat n) (elems s @ spare s))
      else Panic SliceBounds)"

record Pivot =
  DBName :: string
  Tables :: "Table slice"

record SQL =
  SQLStmt :: string

record DDLOptions =
  OnlineDDL :: bool
  DDL_Tables :: "string list"

text \<open>
  What the code calls and this file does not define. Every call takes the state of the
  world \<open>'w\<close> (the database, the random sources, the generator) and returns the new one;
  \<open>'ast\<close> is the type of the generator's statement tree.
  A Go result \<^verbatim>\<open>(v, err)\<close> that the caller checks is a sum, \<open>Inl\<close> the error.
  \<^item> \<open>Rd\<close>: \<^verbatim>\<open>Rd(n)\<close> of this package.
  \<^item> \<open>Shuffle\<close>: the calls \<^verbatim>\<open>swap(i, j)\<close> that \<^verbatim>\<open>rand.Shuffle(n, swap)\<close> makes, in order.
  \<^item> \<open>Select\<close>: \<^verbatim>\<open>p.Executor.GetConn().Select(stmt)\<close>.
  \<^item> \<open>selectStmtAst\<close>, \<open>selectStmt\<close>: the methods of the embedded \<^verbatim>\<open>Generator\<close>.
  \<^item> \<open>FetchTables\<close>, \<open>FetchColumns\<close>, \<open>FetchIndexes\<close>: the connection's metadata calls.
  \<^item> \<open>newcap\<close>: the capacity \<^verbatim>\<open>append\<close> gives the new backing array of a full slice
    that needs the given number of elements.
  \<^item> \<open>rand_Int\<close>: a draw of the local random source \<^verbatim>\<open>r\<close> of \<^verbatim>\<open>prepare\<close>.
  \<^item> \<open>GenerateDDLCreateTable\<close>, \<open>GenerateDDLCreateIndex\<close>, \<open>GenerateDMLInsertByTable\<close>,
    \<open>Exec\<close>, \<open>ReloadSchema\<close>, \<open>GetTables\<close>: the methods of \<^verbatim>\<open>p.Executor\<close>; the
    generators' error result is discarded by the code (\<^verbatim>\<open>sql, _ := ...\<close>), and
    \<open>GetTables\<close> gives the \<^verbatim>\<open>Table\<close> field of each table in the order of the
    \<^verbatim>\<open>range\<close> statement.
\<close>

record ('w, 'ast) env =
  Rd :: "int \<Rightarrow> 'w \<Rightarrow> int \<times> 'w"
  Shuffle :: "nat \<Rightarrow> 'w \<Rightarrow> (nat \<times> nat) list \<times> 'w"
  Select :: "string \<Rightarrow> 'w \<Rightarrow> (err + QueryItemPtr list list) \<times> 'w"
  selectStmtAst :: "int \<Rightarrow> Table list \<Rightarrow> 'w \<Rightarrow> (err + 'ast) \<times> 'w"
  selectStmt :: "'ast \<Rightarrow> Table list \<Rightarrow> PivotRows \<Rightarrow> 'w
                  \<Rightarrow> (err + string \<times> TableColumn list) \<times> 'w"
  FetchTables :: "string \<Rightarrow> 'w \<Rightarrow> (err + string list) \<times> 'w"
  FetchColumns :: "string \<Rightarrow> string \<Rightarrow> 'w \<Rightarrow> (err + Column list) \<times> 'w"
  FetchIndexes :: "string \<Rightarrow> string \<Rightarrow> 'w \<Rightarrow> (err + string list) \<times> 'w"
  newcap :: "nat \<Rightarrow> nat"
  rand_Int :: "'w \<Rightarrow> nat \<times> 'w"
  GenerateDDLCreateTable :: "'w \<Rightarrow> SQL \<times> 'w"
  GenerateDDLCreateIndex :: "DDLOptions \<Rightarrow> 'w \<Rightarrow> SQL \<times> 'w"
  GenerateDMLInsertByTable :: "string \<Rightarrow> 'w \<Rightarrow> SQL \<times> 'w"
  Exec :: "string \<Rightarrow> 'w \<Rightarrow> err option \<times> 'w"
  ReloadSchema :: "'w \<Rightarrow> err option \<times> 'w"
  GetTables :: "'w \<Rightarrow> string list"

section \<open>Pivot selection\<close>

text \<open>
  \<^verbatim>\<open>
  func (p *Pivot) execSelect(stmt string) ([][]*connection.QueryItem, error) {
      return p.Executor.GetConn().Select(stmt)
  }
  \<close>
\<close>

definition execSelect ::
  "('w, 'ast) env \<Rightarrow> string \<Rightarrow> 'w \<Rightarrow> (err + QueryItemPtr list list) \<times> 'w" where
  "execSelect env stmt w = Select env stmt w"

text \<open>
  \<^verbatim>\<open>
  count := 1
  if len(p.Tables) > 1 {
      count = Rd(len(p.Tables)-1) + 1
  }
  \<close>
\<close>

definition ChoosePivotedRow_count :: "('w, 'ast) env \<Rightarrow> Pivot \<Rightarrow> 'w \<Rightarrow> int \<times> 'w" where
  "ChoosePivotedRow_count env p w =
     (if 1 < length (elems (Tables p))
      then (case Rd env (int (length (elems (Tables p))) - 1) w of
              (r, w') \<Rightarrow> (r + 1, w'))
      else (1, w))"

text \<open>
  \<^verbatim>\<open>
  rand.Shuffle(len(p.Tables), func(i, j int) { p.Tables[i], p.Tables[j] = p.Tables[j], p.Tables[i] })
  \<close>
  Each call of the function literal reads and writes two elements of the slice, and
  panics when an index is not below its length.
\<close>

definition swap_Tables :: "nat \<Rightarrow> nat \<Rightarrow> 'a list \<Rightarrow> 'a list res" where
  "swap_Tables i j xs =
     (if i < length xs \<and> j < length xs then Ok (xs[i := xs ! j, j := xs ! i])
      else Panic IndexOutOfRange)"

fun shuffle_Tables :: "(nat \<times> nat) list \<Rightarrow> 'a list \<Rightarrow> 'a list res" where
  "shuffle_Tables [] xs = Ok xs"
| "shuffle_Tables ((i, j) # swaps) xs =
     (case swap_Tables i j xs of
        Panic e \<Rightarrow> Panic e
      | Ok xs' \<Rightarrow> shuffle_Tables swaps xs')"

text \<open>
  The candidates: \<^verbatim>\<open>usedTables := p.Tables[:count]\<close>, after the count and the shuffle.
  The shuffle changes \<^verbatim>\<open>p.Tables\<close> in place.
\<close>

definition ChoosePivotedRow_usedTables ::
  "('w, 'ast) env \<Rightarrow> Pivot \<Rightarrow> 'w \<Rightarrow> (Table list \<times> Pivot \<times> 'w) res" where
  "ChoosePivotedRow_usedTables env p w =
     (case ChoosePivotedRow_count env p w of
        (count, w1) \<Rightarrow>
          (case Shuffle env (length (elems (Tables p))) w1 of
             (swaps, w2) \<Rightarrow>
               (case shuffle_Tables swaps (elems (Tables p)) of
                  Panic e \<Rightarrow> Panic e
                | Ok shuffled \<Rightarrow>
                    (case slice_to ((Tables p)\<lparr>elems := shuffled\<rparr>) count of
                       Panic e \<Rightarrow> Panic e
                     | Ok usedTables \<Rightarrow>
                         Ok (usedTables, p\<lparr>Tables := (Tables p)\<lparr>elems := shuffled\<rparr>\<rparr>, w2)))))"

text \<open>
  \<^verbatim>\<open>
  for _, c := range exeRes[0] {
      tableColumn := TableColumn{i.Name.O, c.ValType.Name()}
      result[tableColumn] = c
  }
  \<close>
\<close>

fun record_cells :: "string \<Rightarrow> QueryItemPtr list \<Rightarrow> PivotRows \<Rightarrow> PivotRows res" where
  "record_cells tbl [] result = Ok result"
| "record_cells tbl (c # cs) result =
     (case c of
        None \<Rightarrow> Panic NilDeref
      | Some item \<Rightarrow>
          record_cells tbl cs
            (AList.update \<lparr>Table = tbl, Name = ValType_Name item\<rparr> c result))"

definition selectSQL :: "Table \<Rightarrow> string" where
  "selectSQL i = ''SELECT * FROM '' @ CIStr_O (Table_Name i) @ '' ORDER BY RAND() LIMIT 1;''"

text \<open>
  \<^verbatim>\<open>
  for _, i := range usedTables {
      sql := fmt.Sprintf("SELECT * FROM %s ORDER BY RAND() LIMIT 1;", i.Name)
      exeRes, err := p.execSelect(sql)
      if err != nil { panic(err) }
      if len(exeRes) > 0 {
          for _, c := range exeRes[0] { ... }
          reallyUsed = append(reallyUsed, i)
      }
  }
  \<close>
\<close>

fun pivot_loop ::
  "('w, 'ast) env \<Rightarrow> Table list \<Rightarrow> PivotRows \<Rightarrow> Table list \<Rightarrow> 'w
     \<Rightarrow> (PivotRows \<times> Table list \<times> 'w) res" where
  "pivot_loop env [] result reallyUsed w = Ok (result, reallyUsed, w)"
| "pivot_loop env (i # usedTables) result reallyUsed w =
     (case execSelect env (selectSQL i) w of
        (Inl e, w') \<Rightarrow> Panic (PanicErr e)
      | (Inr exeRes, w') \<Rightarrow>
          (case exeRes of
             [] \<Rightarrow> pivot_loop env usedTables result reallyUsed w'
           | row # rows \<Rightarrow>
               (case record_cells (CIStr_O (Table_Name i)) row result of
                  Panic e \<Rightarrow> Panic e
                | Ok result' \<Rightarrow>
                    pivot_loop env usedTables result' (reallyUsed @ [i]) w')))"

text \<open>
  \<^verbatim>\<open>func (p *Pivot) ChoosePivotedRow() (map[TableColumn]*connection.QueryItem, []Table, error)\<close>:
  the result map starts empty, \<^verbatim>\<open>reallyUsed\<close> starts nil, and the error returned is
  always nil.
\<close>

definition ChoosePivotedRow ::
  "('w, 'ast) env \<Rightarrow> Pivot \<Rightarrow> 'w
     \<Rightarrow> ((PivotRows \<times> Table list \<times> err option) \<times> Pivot \<times> 'w) res" where
  "ChoosePivotedRow env p w =
     (case ChoosePivotedRow_usedTables env p w of
        Panic e \<Rightarrow> Panic e
      | Ok (usedTables, p', w1) \<Rightarrow>
          (case pivot_loop env usedTables [] [] w1 of
             Panic e \<Rightarrow> Panic e
           | Ok (result, reallyUsed, w2) \<Rightarrow> Ok ((result, reallyUsed, None), p', w2)))"





section \<open>The schema snapshot\<close>

text \<open>
  \<^verbatim>\<open>append(s, x)\<close> writes into the backing array when the slice has spare capacity,
  and otherwise moves the elements to a new array, of the capacity the runtime
  chooses, whose other elements are zero values.
\<close>

definition append_slice :: "('w, 'ast) env \<Rightarrow> 'a \<Rightarrow> 'a slice \<Rightarrow> 'a \<Rightarrow> 'a slice" where
  "append_slice env zero s x =
     (case spare s of
        y # ys \<Rightarrow> \<lparr>elems = elems s @ [x], spare = ys\<rparr>
      | [] \<Rightarrow>
          \<lparr>elems = elems s @ [x],
           spare = replicate (newcap env (length (elems s) + 1) - (length (elems s) + 1)) zero\<rparr>)"

definition NewCIStr :: "string \<Rightarrow> CIStr" where
  "NewCIStr s = \<lparr>CIStr_O = s\<rparr>"

definition zero_Table :: Table where
  "zero_Table = \<lparr>Table_Name = \<lparr>CIStr_O = []\<rparr>, Columns = [], Indexes = []\<rparr>"

text \<open>
  \<^verbatim>\<open>
  func (p *Pivot) Init(ctx context.Context) {
      rand.Seed(time.Now().UnixNano())
      p.Tables = make([]Table, 0)
      tables, err := p.Executor.GetConn().FetchTables(p.DBName)
      if err != nil { panic(err) }
      for _, i := range tables {
          t := Table{Name: model.NewCIStr(i)}
          t.Columns, err = p.Executor.GetConn().FetchColumns(p.DBName, i)
          if err != nil { panic(err) }
          idx, err := p.Executor.GetConn().FetchIndexes(p.DBName, i)
          if err != nil { panic(err) }
          for _, j := range idx { t.Indexes = append(t.Indexes, model.NewCIStr(j)) }
          p.Tables = append(p.Tables, t)
      }
  }
  \<close>
\<close>

definition make_Tables :: "Table slice" where
  "make_Tables = \<lparr>elems = [], spare = []\<rparr>"

fun Init_tables ::
  "('w, 'ast) env \<Rightarrow> string list \<Rightarrow> Pivot \<Rightarrow> 'w \<Rightarrow> (Pivot \<times> 'w) res" where
  "Init_tables env [] p w = Ok (p, w)"
| "Init_tables env (i # tables) p w =
     (case FetchColumns env (DBName p) i w of
        (Inl e, w1) \<Rightarrow> Panic (PanicErr e)
      | (Inr cols, w1) \<Rightarrow>
          (case FetchIndexes env (DBName p) i w1 of
             (Inl e, w2) \<Rightarrow> Panic (PanicErr e)
           | (Inr idx, w2) \<Rightarrow>
               Init_tables env tables
                 (p\<lparr>Tables :=
                      append_slice env zero_Table (Tables p)
                        \<lparr>Table_Name = NewCIStr i, Columns = cols,
                         Indexes = map NewCIStr idx\<rparr>\<rparr>)
                 w2))"

definition Init :: "('w, 'ast) env \<Rightarrow> Pivot \<Rightarrow> 'w \<Rightarrow> (Pivot \<times> 'w) res" where
  "Init env p w =
     (case FetchTables env (DBName p) w of
        (Inl e, w1) \<Rightarrow> Panic (PanicErr e)
      | (Inr tables, w1) \<Rightarrow> Init_tables env tables (p\<lparr>Tables := make_Tables\<rparr>) w1)"

section \<open>One iteration of the oracle\<close>

text \<open>
  \<^verbatim>\<open>
  func (p *Pivot) GenSelectStmt(pivotRows map[TableColumn]*connection.QueryItem,
          usedTables []Table) (string, []TableColumn, error) {
      stmtAst, err := p.selectStmtAst(6, usedTables)
      if err != nil { return "", nil, err }
      sql, columns, err := p.selectStmt(&stmtAst, usedTables, pivotRows)
      if err != nil { return "", nil, err }
      return sql, columns, nil
  }
  \<close>
\<close>

definition GenSelectStmt ::
  "('w, 'ast) env \<Rightarrow> PivotRows \<Rightarrow> Table list \<Rightarrow> 'w
     \<Rightarrow> (err + string \<times> TableColumn list) \<times> 'w" where
  "GenSelectStmt env pivotRows usedTables w =
     (case selectStmtAst env 6 usedTables w of
        (Inl e, w1) \<Rightarrow> (Inl e, w1)
      | (Inr stmtAst, w1) \<Rightarrow>
          (case selectStmt env stmtAst usedTables pivotRows w1 of
             (Inl e, w2) \<Rightarrow> (Inl e, w2)
           | (Inr (sql, columns), w2) \<Rightarrow> (Inr (sql, columns), w2)))"

text \<open>
  The cancellation signal of a \<^verbatim>\<open>context.Context\<close>, as the worker can observe it:
  \<open>ctx n\<close> tells whether \<^verbatim>\<open>ctx.Done()\<close> is closed when the worker has completed \<open>n\<close>
  iterations.
\<close>

type_synonym ctx = "nat \<Rightarrow> bool"

text \<open>
  \<^verbatim>\<open>
  func (p *Pivot) progress(ctx context.Context) {
      pivotRows, usedTables, err := p.ChoosePivotedRow()
      if err != nil { panic(err) }
      selectStmt, columns, err := p.GenSelectStmt(pivotRows, usedTables)
      if err != nil { panic(err) }
      resultRows, err := p.execSelect(selectStmt)
      if err != nil { panic(err) }
      correct := p.verify(pivotRows, columns, resultRows)
      if !correct { panic(fmt.Sprintf("data verified failed. ...", ...)) }
      ...
  }
  \<close>
  (\<open>stmt\<close> is the variable \<^verbatim>\<open>selectStmt\<close>.) The context is not read.
\<close>

definition progress ::
  "ctx \<Rightarrow> ('w, 'ast) env \<Rightarrow> Pivot \<Rightarrow> 'w \<Rightarrow> (Pivot \<times> 'w) res" where
  "progress ctx env p w =
     (case ChoosePivotedRow env p w of
        Panic e \<Rightarrow> Panic e
      | Ok ((pivotRows, usedTables, err), p1, w1) \<Rightarrow>
          (case err of
             Some e \<Rightarrow> Panic (PanicErr e)
           | None \<Rightarrow>
               (case GenSelectStmt env pivotRows usedTables w1 of
                  (Inl e, w2) \<Rightarrow> Panic (PanicErr e)
                | (Inr (stmt, columns), w2) \<Rightarrow>
                    (case execSelect env stmt w2 of
                       (Inl e, w3) \<Rightarrow> Panic (PanicErr e)
                     | (Inr resultRows, w3) \<Rightarrow>
                         (case verify pivotRows columns resultRows of
                            Panic e \<Rightarrow> Panic e
                          | Ok correct \<Rightarrow>
                              if \<not> correct then Panic (VerifyFailed stmt)
                              else Ok (p1, w3))))))"

section \<open>The background worker\<close>

text \<open>
  \<^verbatim>\<open>
  go func() {
      defer p.wg.Done()
      for {
          select {
          case <-ctx.Done():
              return
          default:
              for {
                  p.progress(ctx)
              }
          }
      }
  }()
  \<close>
  The worker has retired (it returned), has crashed (an iteration panicked, which
  ends the process), or is still iterating when the fuel, the number of iterations
  looked at, is used up. The inner loop has no exit, so control does not come back
  to the \<^verbatim>\<open>select\<close>.
\<close>

datatype 'w worker = Retired | Crashed panic | Iterating Pivot 'w

fun iterate ::
  "nat \<Rightarrow> ctx \<Rightarrow> ('w, 'ast) env \<Rightarrow> Pivot \<Rightarrow> 'w \<Rightarrow> 'w worker" where
  "iterate 0 ctx env p w = Iterating p w"
| "iterate (Suc fuel) ctx env p w =
     (case progress ctx env p w of
        Panic e \<Rightarrow> Crashed e
      | Ok (p', w') \<Rightarrow> iterate fuel (\<lambda>n. ctx (Suc n)) env p' w')"

definition worker ::
  "nat \<Rightarrow> ctx \<Rightarrow> ('w, 'ast) env \<Rightarrow> Pivot \<Rightarrow> 'w \<Rightarrow> 'w worker" where
  "worker fuel ctx env p w = (if ctx 0 then Retired else iterate fuel ctx env p w)"

section \<open>Bootstrap\<close>

text \<open>
  What \<^verbatim>\<open>prepare\<close> writes to the log: an error entry with its message, the
  statement and the error, or a bare message.
\<close>

datatype log_entry = LogError string string err | LogMessage string

text \<open>\<^verbatim>\<open>r.Intn(n)\<close>: a number of \<open>[0, n)\<close> drawn from the random source \<^verbatim>\<open>r\<close>.\<close>

definition Intn :: "('w, 'ast) env \<Rightarrow> nat \<Rightarrow> 'w \<Rightarrow> nat \<times> 'w" where
  "Intn env n w = (case rand_Int env w of (x, w') \<Rightarrow> (x mod n, w'))"

text \<open>
  \<^verbatim>\<open>
  for i := 0; i < r.Intn(10)+1; i++ {
      sql, _ := p.Executor.GenerateDDLCreateTable()
      err := p.Executor.Exec(sql.SQLStmt)
      if err != nil {
          log.L().Error("create table failed", zap.String("sql", sql.SQLStmt), zap.Error(err))
      }
  }
  \<close>
  The condition draws a new number before every iteration.
\<close>

function create_tables ::
  "('w, 'ast) env \<Rightarrow> nat \<Rightarrow> log_entry list \<Rightarrow> 'w \<Rightarrow> log_entry list \<times> 'w" where
  "create_tables env i lg w =
     (case Intn env 10 w of
        (k, w1) \<Rightarrow>
          if i < k + 1 then
            (case GenerateDDLCreateTable env w1 of
               (sql, w2) \<Rightarrow>
                 (case Exec env (SQLStmt sql) w2 of
                    (None, w3) \<Rightarrow> create_tables env (i + 1) lg w3
                  | (Some e, w3) \<Rightarrow>
                      create_tables env (i + 1)
                        (lg @ [LogError ''create table failed'' (SQLStmt sql) e]) w3))
          else (lg, w1))"
  by pat_completeness auto
termination
  by (relation "measure (\<lambda>(env, i, lg, w). 10 - i)")
    (auto simp: Intn_def split: prod.splits)

text \<open>
  \<^verbatim>\<open>
  ddlOpt := &generator.DDLOptions{OnlineDDL: true, Tables: []string{}}
  for i := 0; i < r.Intn(10); i++ {
      sql, _ := p.Executor.GenerateDDLCreateIndex(ddlOpt)
      fmt.Println(sql)
      err = p.Executor.Exec(sql.SQLStmt)
      if err != nil {
          log.L().Error("create index failed", zap.String("sql", sql.SQLStmt), zap.Error(err))
      }
  }
  \<close>
\<close>

definition ddlOpt :: DDLOptions where
  "ddlOpt = \<lparr>OnlineDDL = True, DDL_Tables = []\<rparr>"

function create_indexes ::
  "('w, 'ast) env \<Rightarrow> nat \<Rightarrow> log_entry list \<Rightarrow> 'w \<Rightarrow> log_entry list \<times> 'w" where
  "create_indexes env i lg w =
     (case Intn env 10 w of
        (k, w1) \<Rightarrow>
          if i < k then
            (case GenerateDDLCreateIndex env ddlOpt w1 of
               (sql, w2) \<Rightarrow>
                 (case Exec env (SQLStmt sql) w2 of
                    (None, w3) \<Rightarrow> create_indexes env (i + 1) lg w3
                  | (Some e, w3) \<Rightarrow>
                      create_indexes env (i + 1)
                        (lg @ [LogError ''create index failed'' (SQLStmt sql) e]) w3))
          else (lg, w1))"
  by pat_completeness auto
termination
  by (relation "measure (\<lambda>(env, i, lg, w). 10 - i)")
    (auto simp: Intn_def split: prod.splits)

text \<open>
  \<^verbatim>\<open>
  for _, table := range p.Executor.GetTables() {
      sql, _ := p.Executor.GenerateDMLInsertByTable(table.Table)
      err = p.Executor.Exec(sql.SQLStmt)
      if err != nil {
          log.L().Error("insert data failed", zap.String("sql", sql.SQLStmt), zap.Error(err))
      }
  }
  \<close>
\<close>

fun insert_tables ::
  "('w, 'ast) env \<Rightarrow> string list \<Rightarrow> log_entry list \<Rightarrow> 'w \<Rightarrow> log_entry list \<times> 'w" where
  "insert_tables env [] lg w = (lg, w)"
| "insert_tables env (table # tables) lg w =
     (case GenerateDMLInsertByTable env table w of
        (sql, w1) \<Rightarrow>
          (case Exec env (SQLStmt sql) w1 of
             (None, w2) \<Rightarrow> insert_tables env tables lg w2
           | (Some e, w2) \<Rightarrow>
               insert_tables env tables
                 (lg @ [LogError ''insert data failed'' (SQLStmt sql) e]) w2))"

text \<open>
  \<^verbatim>\<open>prepare\<close>: the tables, then
  \<^verbatim>\<open>
  err := p.Executor.ReloadSchema()
  if err != nil { log.Error("reload data failed!") }
  \<close>
  then the indexes and the rows. It returns nothing; the model returns the log and
  the world.
\<close>

definition prepare :: "('w, 'ast) env \<Rightarrow> 'w \<Rightarrow> log_entry list \<times> 'w" where
  "prepare env w =
     (case create_tables env 0 [] w of
        (lg1, w1) \<Rightarrow>
          (case ReloadSchema env w1 of
             (err, w2) \<Rightarrow>
               (case create_indexes env 0
                       (case err of None \<Rightarrow> lg1
                        | Some e \<Rightarrow> lg1 @ [LogMessage ''reload data failed!'']) w2 of
                  (lg3, w3) \<Rightarrow> insert_tables env (GetTables env w3) lg3 w3)))"

text \<open>
  The environment in which no statement and no schema reload fails, and which is
  otherwise the given one: every call changes the world as before.
\<close>

definition never_failing :: "('w, 'ast) env \<Rightarrow> ('w, 'ast) env" where
  "never_failing env =
     env\<lparr>Exec := (\<lambda>stmt w. (None, snd (Exec env stmt w))),
         ReloadSchema := (\<lambda>w. (None, snd (ReloadSchema env w)))\<rparr>"

declare create_tables.simps [simp del] create_indexes.simps [simp del]

section \<open>An environment for the examples\<close>

text \<open>
  The world is the queue of the result sets that the connection will return, one per
  query. \<^verbatim>\<open>Rd(n)\<close> answers 1 from \<open>n = 2\<close> on and 0 below, the shuffle swaps the
  last element with the first, the generator selects every recorded column, and no
  statement fails.
\<close>

definition scripted :: "(QueryItemPtr list list list, unit) env" where
  "scripted =
     \<lparr>Rd = (\<lambda>n w. (if 2 \<le> n then 1 else 0, w)),
      Shuffle = (\<lambda>n w. (if 1 < n then [(n - 1, 0)] else [], w)),
      Select = (\<lambda>stmt w. case w of [] \<Rightarrow> (Inl ''connection closed'', [])
                                  | r # rs \<Rightarrow> (Inr r, rs)),
      selectStmtAst = (\<lambda>depth tables w. (Inr (), w)),
      selectStmt = (\<lambda>stmtAst tables pivotRows w.
                      (Inr (''SELECT * FROM t'', map fst pivotRows), w)),
      FetchTables = (\<lambda>db w. (Inr [], w)),
      FetchColumns = (\<lambda>db tbl w. (Inr [], w)),
      FetchIndexes = (\<lambda>db tbl w. (Inr [], w)),
      newcap = (\<lambda>n. 2 * n),
      rand_Int = (\<lambda>w. (1, w)),
      GenerateDDLCreateTable = (\<lambda>w. (\<lparr>SQLStmt = ''CREATE TABLE t (a INT)''\<rparr>, w)),
      GenerateDDLCreateIndex = (\<lambda>opt w. (\<lparr>SQLStmt = ''CREATE INDEX i ON t (a)''\<rparr>, w)),
      GenerateDMLInsertByTable = (\<lambda>tbl w. (\<lparr>SQLStmt = ''INSERT INTO t VALUES (1)''\<rparr>, w)),
      Exec = (\<lambda>stmt w. (None, w)),
      ReloadSchema = (\<lambda>w. (None, w)),
      GetTables = (\<lambda>w. [''t''])\<rparr>"

definition mk_Table :: "string \<Rightarrow> Table" where
  "mk_Table name = \<lparr>Table_Name = \<lparr>CIStr_O = name\<rparr>, Columns = [], Indexes = []\<rparr>"

definition mk_cell :: "string \<Rightarrow> string \<Rightarrow> QueryItemPtr" where
  "mk_cell name v = Some \<lparr>Null = False, ValType_Name = name, ValString = v\<rparr>"

text \<open>An environment whose table \<open>e\<close> is empty and whose other tables hold one row.\<close>

definition with_empty_table :: "(QueryItemPtr list list list, unit) env" where
  "with_empty_table =
     scripted\<lparr>Select := (\<lambda>stmt w.
        (if stmt = selectSQL (mk_Table ''e'') then Inr [] else Inr [[mk_cell ''a'' ''1'']], w))\<rparr>"

text \<open>An environment in which the table creation statement fails.\<close>

definition rejecting_create_table :: "(QueryItemPtr list list list, unit) env" where
  "rejecting_create_table =
     scripted\<lparr>Exec := (\<lambda>stmt w.
        (if stmt = ''CREATE TABLE t (a INT)'' then Some ''syntax error'' else None, w))\<rparr>"


text \<open>An environment in which every statement and the schema reload fail.\<close>

definition rejecting_everything :: "(QueryItemPtr list list list, unit) env" where
  "rejecting_everything =
     scripted\<lparr>Exec := (\<lambda>stmt w. (Some ''refused'', w)),
              ReloadSchema := (\<lambda>w. (Some ''refused'', w))\<rparr>"

section \<open>Properties of the comparison\<close>

text \<open>
  C2, as amended. The comparison of two cells answers true exactly when their type
  identifiers match, their null flags match, and they are both null or their strings
  match. Cells with different type identifiers are never equal, whatever their strings.
\<close>

theorem compareQueryItem_iff:
  "compareQueryItem (Some left) (Some right) =
     Ok (ValType_Name left = ValType_Name right \<and> Null left = Null right \<and>
         ((Null left \<and> Null right) \<or> ValString left = ValString right))
   \<and> (ValType_Name left \<noteq> ValType_Name right \<longrightarrow>
        compareQueryItem (Some left) (Some right) = Ok False)"
  by simp

theorem compareQueryItem_iff_witness:
  "ValType_Name \<lparr>Null = False, ValType_Name = ''a'', ValString = ''1''\<rparr>
     \<noteq> ValType_Name \<lparr>Null = False, ValType_Name = ''b'', ValString = ''1''\<rparr>
   \<and> compareQueryItem (Some \<lparr>Null = False, ValType_Name = ''a'', ValString = ''1''\<rparr>)
        (Some \<lparr>Null = False, ValType_Name = ''b'', ValString = ''1''\<rparr>) = Ok False"
  using compareQueryItem_iff
    [of "\<lparr>Null = False, ValType_Name = ''a'', ValString = ''1''\<rparr>"
        "\<lparr>Null = False, ValType_Name = ''b'', ValString = ''1''\<rparr>"]
  by simp

text \<open>
  C2, as stated, fails: a null cell and a non-null cell of one type with the same string
  satisfy "type identifiers match and (both null or strings match)", and the code
  answers false.
\<close>

theorem compareQueryItem_null_flag_counterexample:
  "compareQueryItem (Some \<lparr>Null = True, ValType_Name = ''a'', ValString = ''1''\<rparr>)
      (Some \<lparr>Null = False, ValType_Name = ''a'', ValString = ''1''\<rparr>) = Ok False
   \<and> ValType_Name \<lparr>Null = True, ValType_Name = ''a'', ValString = ''1''\<rparr>
       = ValType_Name \<lparr>Null = False, ValType_Name = ''a'', ValString = ''1''\<rparr>
   \<and> ((Null \<lparr>Null = True, ValType_Name = ''a'', ValString = ''1''\<rparr>
        \<and> Null \<lparr>Null = False, ValType_Name = ''a'', ValString = ''1''\<rparr>)
       \<or> ValString \<lparr>Null = True, ValType_Name = ''a'', ValString = ''1''\<rparr>
           = ValString \<lparr>Null = False, ValType_Name = ''a'', ValString = ''1''\<rparr>)"
  by simp

text \<open>
  C3. With matching type identifiers, two null cells are equal whatever their strings,
  and a null cell is never equal to a non-null cell, even with the same string.
\<close>

theorem compareQueryItem_null:
  assumes "ValType_Name left = ValType_Name right"
  shows "(Null left \<and> Null right \<longrightarrow> compareQueryItem (Some left) (Some right) = Ok True)
       \<and> (Null left \<noteq> Null right \<longrightarrow> compareQueryItem (Some left) (Some right) = Ok False)"
  using assms by simp

theorem compareQueryItem_null_witness:
  "compareQueryItem (Some \<lparr>Null = True, ValType_Name = ''a'', ValString = ''''\<rparr>)
      (Some \<lparr>Null = True, ValType_Name = ''a'', ValString = ''0''\<rparr>) = Ok True
   \<and> compareQueryItem (Some \<lparr>Null = True, ValType_Name = ''a'', ValString = ''0''\<rparr>)
      (Some \<lparr>Null = False, ValType_Name = ''a'', ValString = ''0''\<rparr>) = Ok False"
  using compareQueryItem_null
    [of "\<lparr>Null = True, ValType_Name = ''a'', ValString = ''''\<rparr>"
        "\<lparr>Null = True, ValType_Name = ''a'', ValString = ''0''\<rparr>"]
    compareQueryItem_null
    [of "\<lparr>Null = True, ValType_Name = ''a'', ValString = ''0''\<rparr>"
        "\<lparr>Null = False, ValType_Name = ''a'', ValString = ''0''\<rparr>"]
  by simp

section \<open>Properties of the verification\<close>

subsection \<open>One result row\<close>

lemma checkRow_from_append:
  "checkRow_from m (pre @ rest) row i =
     (case checkRow_from m pre row i of
        Panic e \<Rightarrow> Panic e
      | Ok b \<Rightarrow> if b then checkRow_from m rest row (i + length pre) else Ok False)"
  by (induction pre arbitrary: i) (auto split: res.splits)

lemma checkRow_from_True_iff:
  "checkRow_from m cols row i = Ok True \<longleftrightarrow>
     (cols = [] \<or> i + length cols \<le> length row) \<and>
     (\<forall>j<length cols. compareQueryItem (lookup m (cols ! j)) (row ! (i + j)) = Ok True)"
proof (induction cols arbitrary: i)
  case Nil
  then show ?case by simp
next
  case (Cons c cols)
  have all_Suc: "\<And>P n. (\<forall>j<Suc n. P j) \<longleftrightarrow> P 0 \<and> (\<forall>j<n. P (Suc j))"
    by (auto simp: less_Suc_eq_0_disj)
  show ?case
  proof (cases "length row \<le> i")
    case True
    then show ?thesis by auto
  next
    case False
    then show ?thesis
      by (cases "compareQueryItem (lookup m c) (row ! i)")
        (auto simp: Cons.IH all_Suc)
  qed
qed

lemma checkRow_True_iff:
  "checkRow m cols row = Ok True \<longleftrightarrow>
     length cols \<le> length row \<and>
     (\<forall>i<length cols. compareQueryItem (lookup m (cols ! i)) (row ! i) = Ok True)"
  by (auto simp: checkRow_def checkRow_from_True_iff)

lemma compareQueryItem_returns:
  "l \<noteq> None \<Longrightarrow> r \<noteq> None \<Longrightarrow> \<exists>b. compareQueryItem l r = Ok b"
  by (cases l; cases r) auto

lemma checkRow_from_returns:
  assumes "\<forall>c\<in>set cols. lookup m c \<noteq> None"
    and "i + length cols \<le> length row"
    and "\<forall>j<length cols. row ! (i + j) \<noteq> None"
  shows "\<exists>b. checkRow_from m cols row i = Ok b"
  using assms
proof (induction cols arbitrary: i)
  case Nil
  then show ?case by auto
next
  case (Cons c cols)
  from Cons.prems have "lookup m c \<noteq> None" and "row ! i \<noteq> None" by auto
  then obtain b where b: "compareQueryItem (lookup m c) (row ! i) = Ok b"
    using compareQueryItem_returns by blast
  have "\<exists>b'. checkRow_from m cols row (i + 1) = Ok b'"
  proof (rule Cons.IH)
    show "\<forall>c\<in>set cols. lookup m c \<noteq> None" using Cons.prems(1) by simp
    show "i + 1 + length cols \<le> length row" using Cons.prems(2) by simp
    show "\<forall>j<length cols. row ! (i + 1 + j) \<noteq> None"
    proof (intro allI impI)
      fix j assume "j < length cols"
      then have "row ! (i + Suc j) \<noteq> None" using Cons.prems(3) by auto
      then show "row ! (i + 1 + j) \<noteq> None" by simp
    qed
  qed
  with b Cons.prems(2) show ?case by auto
qed

lemma checkRow_returns:
  assumes "\<forall>c\<in>set cols. lookup m c \<noteq> None"
    and "length cols \<le> length row"
    and "\<forall>i<length cols. row ! i \<noteq> None"
  shows "\<exists>b. checkRow m cols row = Ok b"
  unfolding checkRow_def using checkRow_from_returns [of cols m 0 row] assms by simp

lemma checkRow_short_circuit:
  assumes "checkRow m pre row = Ok True"
    and "length pre < length row"
    and "compareQueryItem (lookup m c) (row ! length pre) = Ok False"
  shows "checkRow m (pre @ c # post) row = Ok False"
  using assms by (simp add: checkRow_def checkRow_from_append)

lemma checkRow_panics:
  assumes "checkRow m pre row = Ok True"
    and "lookup m c = None \<or> length row \<le> length pre"
  shows "checkRow m (pre @ c # post) row =
           Panic (if length row \<le> length pre then IndexOutOfRange else NilDeref)"
  using assms by (auto simp add: checkRow_def checkRow_from_append)

lemma checkRows_aligned:
  assumes "\<forall>c\<in>set cols. lookup m c \<noteq> None"
    and "\<forall>row\<in>set rows. length cols \<le> length row \<and> None \<notin> set row"
  shows "checkRows m cols rows =
     Ok (\<exists>row\<in>set rows. \<forall>i<length cols.
            compareQueryItem (lookup m (cols ! i)) (row ! i) = Ok True)"
  using assms(2)
proof (induction rows)
  case Nil
  then show ?case by simp
next
  case (Cons row rows)
  have len: "length cols \<le> length row" and nn: "None \<notin> set row"
    using Cons.prems by auto
  have "\<forall>i<length cols. row ! i \<noteq> None"
    using len nn by (metis nth_mem order_less_le_trans)
  then obtain b where b: "checkRow m cols row = Ok b"
    using checkRow_returns [OF assms(1) len] by blast
  have bT: "b \<longleftrightarrow> (\<forall>i<length cols.
            compareQueryItem (lookup m (cols ! i)) (row ! i) = Ok True)"
    using b checkRow_True_iff [of m cols row] len by auto
  have IH: "checkRows m cols rows =
     Ok (\<exists>row\<in>set rows. \<forall>i<length cols.
            compareQueryItem (lookup m (cols ! i)) (row ! i) = Ok True)"
    using Cons by simp
  show ?case using b bT IH by auto
qed

lemma checkRows_True_exists:
  "checkRows m cols rows = Ok True \<Longrightarrow> \<exists>row\<in>set rows. checkRow m cols row = Ok True"
  by (induction rows) (auto split: res.splits if_splits)

lemma print_row_ok:
  "j + length r \<le> length cols \<Longrightarrow> None \<notin> set r \<Longrightarrow> print_row cols r j = Ok ()"
proof (induction r arbitrary: j)
  case Nil
  then show ?case by simp
next
  case (Cons c r)
  then obtain item where "c = Some item" by (cases c) auto
  with Cons show ?case by simp
qed

lemma print_data_ok:
  "\<forall>r\<in>set rows. length r \<le> length cols \<and> None \<notin> set r \<Longrightarrow> print_data cols rows = Ok ()"
  by (induction rows) (auto simp: print_row_ok)

lemma print_originRow_ok:
  "\<forall>k\<in>set (map fst m). map_of m k \<noteq> Some None \<Longrightarrow> print_originRow m = Ok ()"
  by (auto simp: print_originRow_def list_ex_iff)

lemma verify_True_exists:
  assumes "verify m cols rows = Ok True"
  shows "\<exists>row\<in>set rows. length cols \<le> length row \<and>
           (\<forall>i<length cols. compareQueryItem (lookup m (cols ! i)) (row ! i) = Ok True)"
proof -
  from assms have "checkRows m cols rows = Ok True"
    by (auto simp: verify_def split: res.splits if_splits)
  then show ?thesis
    using checkRows_True_exists checkRow_True_iff by blast
qed

lemma compareQueryItem_True_not_nil:
  "compareQueryItem l r = Ok True \<Longrightarrow> l \<noteq> None \<and> r \<noteq> None"
  by (cases l; cases r) auto

lemma verify_well_formed_True:
  assumes wf: "well_formed m rows"
    and ex: "\<exists>row\<in>set rows. length cols \<le> length row \<and>
            (\<forall>i<length cols. compareQueryItem (lookup m (cols ! i)) (row ! i) = Ok True)"
  shows "verify m cols rows = Ok True"
proof -
  from ex obtain r0 where r0: "r0 \<in> set rows" "length cols \<le> length r0"
    and m0: "\<forall>i<length cols. compareQueryItem (lookup m (cols ! i)) (r0 ! i) = Ok True"
    by blast
  have keys: "\<forall>c\<in>set cols. lookup m c \<noteq> None"
  proof
    fix c assume "c \<in> set cols"
    then obtain i where "i < length cols" "cols ! i = c"
      by (auto simp: in_set_conv_nth)
    with m0 show "lookup m c \<noteq> None"
      using compareQueryItem_True_not_nil by blast
  qed
  have same: "\<forall>row\<in>set rows. length row = length r0"
    using wf r0(1) unfolding well_formed_def by blast
  have nonil: "\<forall>row\<in>set rows. None \<notin> set row"
    using wf unfolding well_formed_def by blast
  have wide: "\<forall>row\<in>set rows. length cols \<le> length row \<and> None \<notin> set row"
    using same nonil r0(2) by simp
  have nomap: "\<forall>k\<in>set (map fst m). map_of m k \<noteq> Some None"
    using wf unfolding well_formed_def by blast
  have p: "print_originRow m = Ok ()"
    using nomap by (rule print_originRow_ok)
  have "\<exists>row\<in>set rows. \<forall>i<length cols.
            compareQueryItem (lookup m (cols ! i)) (row ! i) = Ok True"
    using r0(1) m0 by blast
  then have c: "checkRows m cols rows = Ok True"
    by (simp add: checkRows_aligned [OF keys wide])
  show ?thesis using p c by (simp add: verify_def)
qed

lemma verify_aligned:
  assumes "aligned m cols rows"
  shows "verify m cols rows =
     Ok (\<exists>row\<in>set rows. \<forall>i<length cols.
            compareQueryItem (lookup m (cols ! i)) (row ! i) = Ok True)"
proof -
  have wf: "well_formed m rows" and keys: "\<forall>c\<in>set cols. lookup m c \<noteq> None"
    and len: "\<forall>row\<in>set rows. length row = length cols"
    using assms unfolding aligned_def by blast+
  have nonil: "\<forall>row\<in>set rows. None \<notin> set row"
    using wf unfolding well_formed_def by blast
  have nomap: "\<forall>k\<in>set (map fst m). map_of m k \<noteq> Some None"
    using wf unfolding well_formed_def by blast
  have wide: "\<forall>row\<in>set rows. length cols \<le> length row \<and> None \<notin> set row"
    using len nonil by simp
  have narrow: "\<forall>r\<in>set rows. length r \<le> length cols \<and> None \<notin> set r"
    using len nonil by simp
  have p: "print_originRow m = Ok ()"
    using nomap by (rule print_originRow_ok)
  have d: "print_data cols rows = Ok ()"
    using narrow by (rule print_data_ok)
  show ?thesis
    using p d by (simp add: verify_def checkRows_aligned [OF keys wide])
qed

text \<open>
  C1. \<^verbatim>\<open>verify\<close> answers true only if some result row matches the pivot row on
  every output column. On a well-formed result set (no nil pointer, rows of one
  length) it answers true exactly when such a row exists; when the output columns
  are moreover aligned with the pivot row and the rows, it returns that truth value.
  Within a row, the check stops at the first mismatched column: the columns after it
  are not looked at, whatever they are.
\<close>

theorem verify_iff_matching_row:
  "(verify m cols rows = Ok True \<longrightarrow>
      (\<exists>row\<in>set rows. length cols \<le> length row \<and>
         (\<forall>i<length cols. compareQueryItem (lookup m (cols ! i)) (row ! i) = Ok True)))
   \<and> (well_formed m rows \<longrightarrow>
        (verify m cols rows = Ok True \<longleftrightarrow>
           (\<exists>row\<in>set rows. length cols \<le> length row \<and>
              (\<forall>i<length cols.
                 compareQueryItem (lookup m (cols ! i)) (row ! i) = Ok True))))
   \<and> (aligned m cols rows \<longrightarrow>
        verify m cols rows =
          Ok (\<exists>row\<in>set rows. \<forall>i<length cols.
                compareQueryItem (lookup m (cols ! i)) (row ! i) = Ok True))
   \<and> (checkRow m pre row = Ok True \<and> length pre < length row \<and>
        compareQueryItem (lookup m c) (row ! length pre) = Ok False \<longrightarrow>
        checkRow m (pre @ c # post) row = Ok False)"
proof (intro conjI impI)
  assume "verify m cols rows = Ok True"
  then show "\<exists>row\<in>set rows. length cols \<le> length row \<and>
         (\<forall>i<length cols. compareQueryItem (lookup m (cols ! i)) (row ! i) = Ok True)"
    by (rule verify_True_exists)
next
  assume "well_formed m rows"
  then show "verify m cols rows = Ok True \<longleftrightarrow>
           (\<exists>row\<in>set rows. length cols \<le> length row \<and>
              (\<forall>i<length cols.
                 compareQueryItem (lookup m (cols ! i)) (row ! i) = Ok True))"
    using verify_True_exists [of m cols rows] verify_well_formed_True [of m rows cols]
    by blast
next
  assume "aligned m cols rows"
  then show "verify m cols rows =
          Ok (\<exists>row\<in>set rows. \<forall>i<length cols.
                compareQueryItem (lookup m (cols ! i)) (row ! i) = Ok True)"
    by (rule verify_aligned)
next
  assume "checkRow m pre row = Ok True \<and> length pre < length row \<and>
        compareQueryItem (lookup m c) (row ! length pre) = Ok False"
  then show "checkRow m (pre @ c # post) row = Ok False"
    using checkRow_short_circuit by blast
qed

text \<open>
  The scenario of the specification: the pivot row \<open>(1, x)\<close> of table \<open>t\<close> is the second
  of two result rows; and a row that differs in its second column is rejected without
  a look at a third output column that has no recorded cell.
\<close>

theorem verify_iff_matching_row_witness:
  "aligned
     [(\<lparr>Table = ''t'', Name = ''a''\<rparr>, Some \<lparr>Null = False, ValType_Name = ''a'', ValString = ''1''\<rparr>),
      (\<lparr>Table = ''t'', Name = ''b''\<rparr>, Some \<lparr>Null = False, ValType_Name = ''b'', ValString = ''x''\<rparr>)]
     [\<lparr>Table = ''t'', Name = ''a''\<rparr>, \<lparr>Table = ''t'', Name = ''b''\<rparr>]
     [[Some \<lparr>Null = False, ValType_Name = ''a'', ValString = ''2''\<rparr>,
       Some \<lparr>Null = False, ValType_Name = ''b'', ValString = ''y''\<rparr>],
      [Some \<lparr>Null = False, ValType_Name = ''a'', ValString = ''1''\<rparr>,
       Some \<lparr>Null = False, ValType_Name = ''b'', ValString = ''x''\<rparr>]]
   \<and> verify
     [(\<lparr>Table = ''t'', Name = ''a''\<rparr>, Some \<lparr>Null = False, ValType_Name = ''a'', ValString = ''1''\<rparr>),
      (\<lparr>Table = ''t'', Name = ''b''\<rparr>, Some \<lparr>Null = False, ValType_Name = ''b'', ValString = ''x''\<rparr>)]
     [\<lparr>Table = ''t'', Name = ''a''\<rparr>, \<lparr>Table = ''t'', Name = ''b''\<rparr>]
     [[Some \<lparr>Null = False, ValType_Name = ''a'', ValString = ''2''\<rparr>,
       Some \<lparr>Null = False, ValType_Name = ''b'', ValString = ''y''\<rparr>],
      [Some \<lparr>Null = False, ValType_Name = ''a'', ValString = ''1''\<rparr>,
       Some \<lparr>Null = False, ValType_Name = ''b'', ValString = ''x''\<rparr>]] = Ok True
   \<and> checkRow
     [(\<lparr>Table = ''t'', Name = ''a''\<rparr>, Some \<lparr>Null = False, ValType_Name = ''a'', ValString = ''1''\<rparr>),
      (\<lparr>Table = ''t'', Name = ''b''\<rparr>, Some \<lparr>Null = False, ValType_Name = ''b'', ValString = ''x''\<rparr>)]
     ([\<lparr>Table = ''t'', Name = ''a''\<rparr>] @ \<lparr>Table = ''t'', Name = ''b''\<rparr> # [\<lparr>Table = ''t'', Name = ''c''\<rparr>])
     [Some \<lparr>Null = False, ValType_Name = ''a'', ValString = ''1''\<rparr>,
      Some \<lparr>Null = False, ValType_Name = ''b'', ValString = ''y''\<rparr>] = Ok False"
  using verify_iff_matching_row
    [of "[(\<lparr>Table = ''t'', Name = ''a''\<rparr>, Some \<lparr>Null = False, ValType_Name = ''a'', ValString = ''1''\<rparr>),
          (\<lparr>Table = ''t'', Name = ''b''\<rparr>, Some \<lparr>Null = False, ValType_Name = ''b'', ValString = ''x''\<rparr>)]"
        "[\<lparr>Table = ''t'', Name = ''a''\<rparr>, \<lparr>Table = ''t'', Name = ''b''\<rparr>]"
        "[[Some \<lparr>Null = False, ValType_Name = ''a'', ValString = ''2''\<rparr>,
           Some \<lparr>Null = False, ValType_Name = ''b'', ValString = ''y''\<rparr>],
          [Some \<lparr>Null = False, ValType_Name = ''a'', ValString = ''1''\<rparr>,
           Some \<lparr>Null = False, ValType_Name = ''b'', ValString = ''x''\<rparr>]]"
        "[\<lparr>Table = ''t'', Name = ''a''\<rparr>]"
        "[Some \<lparr>Null = False, ValType_Name = ''a'', ValString = ''1''\<rparr>,
          Some \<lparr>Null = False, ValType_Name = ''b'', ValString = ''y''\<rparr>]"
        "\<lparr>Table = ''t'', Name = ''b''\<rparr>"
        "[\<lparr>Table = ''t'', Name = ''c''\<rparr>]"]
  by (simp add: aligned_def well_formed_def lookup_def verify_def checkRow_def print_originRow_def)

text \<open>
  C9, as amended. \<^verbatim>\<open>checkRow\<close> returns a truth value when every output column has a
  recorded cell and the result row has a non-nil cell for every output column. It
  panics when it reaches an output column whose key has no recorded cell, or for which
  the row has no cell: that is, when every column before that one matched. The panic
  is an index out of range when the row is too short, a nil dereference otherwise.
  When a column mismatches after columns that matched, it returns false, and the
  columns after that one are not reached, whatever they are and however short the
  row is for them.
\<close>

theorem checkRow_total_iff_aligned:
  "((\<forall>c\<in>set cols. lookup m c \<noteq> None) \<and> length cols \<le> length row \<and>
      (\<forall>i<length cols. row ! i \<noteq> None) \<longrightarrow> (\<exists>b. checkRow m cols row = Ok b))
   \<and> (checkRow m pre row = Ok True \<and> (lookup m c = None \<or> length row \<le> length pre) \<longrightarrow>
        checkRow m (pre @ c # post) row =
          Panic (if length row \<le> length pre then IndexOutOfRange else NilDeref))
   \<and> (checkRow m pre row = Ok True \<and> length pre < length row \<and>
        compareQueryItem (lookup m c) (row ! length pre) = Ok False \<longrightarrow>
        checkRow m (pre @ c # post) row = Ok False)"
  using checkRow_returns [of cols m row] checkRow_panics [of m pre row c post]
    checkRow_short_circuit [of m pre row c post]
  by blast

theorem checkRow_total_iff_aligned_witness:
  "checkRow
     [(\<lparr>Table = ''t'', Name = ''a''\<rparr>, Some \<lparr>Null = False, ValType_Name = ''a'', ValString = ''1''\<rparr>)]
     [\<lparr>Table = ''t'', Name = ''a''\<rparr>]
     [Some \<lparr>Null = False, ValType_Name = ''a'', ValString = ''1''\<rparr>] = Ok True
   \<and> lookup
     [(\<lparr>Table = ''t'', Name = ''a''\<rparr>, Some \<lparr>Null = False, ValType_Name = ''a'', ValString = ''1''\<rparr>)]
     \<lparr>Table = ''t'', Name = ''b''\<rparr> = None
   \<and> checkRow
     [(\<lparr>Table = ''t'', Name = ''a''\<rparr>, Some \<lparr>Null = False, ValType_Name = ''a'', ValString = ''1''\<rparr>)]
     ([\<lparr>Table = ''t'', Name = ''a''\<rparr>] @ \<lparr>Table = ''t'', Name = ''b''\<rparr> # [])
     [Some \<lparr>Null = False, ValType_Name = ''a'', ValString = ''1''\<rparr>] = Panic IndexOutOfRange
   \<and> checkRow
     [(\<lparr>Table = ''t'', Name = ''a''\<rparr>, Some \<lparr>Null = False, ValType_Name = ''a'', ValString = ''1''\<rparr>)]
     ([\<lparr>Table = ''t'', Name = ''a''\<rparr>] @ \<lparr>Table = ''t'', Name = ''b''\<rparr> # [])
     [Some \<lparr>Null = False, ValType_Name = ''a'', ValString = ''1''\<rparr>,
      Some \<lparr>Null = False, ValType_Name = ''b'', ValString = ''x''\<rparr>] = Panic NilDeref
   \<and> compareQueryItem
     (lookup
        [(\<lparr>Table = ''t'', Name = ''a''\<rparr>, Some \<lparr>Null = False, ValType_Name = ''a'', ValString = ''1''\<rparr>)]
        \<lparr>Table = ''t'', Name = ''a''\<rparr>)
     (Some \<lparr>Null = False, ValType_Name = ''a'', ValString = ''2''\<rparr>) = Ok False
   \<and> checkRow
     [(\<lparr>Table = ''t'', Name = ''a''\<rparr>, Some \<lparr>Null = False, ValType_Name = ''a'', ValString = ''1''\<rparr>)]
     ([] @ \<lparr>Table = ''t'', Name = ''a''\<rparr> # [\<lparr>Table = ''t'', Name = ''b''\<rparr>])
     [Some \<lparr>Null = False, ValType_Name = ''a'', ValString = ''2''\<rparr>] = Ok False"
  using checkRow_total_iff_aligned
    [of "[\<lparr>Table = ''t'', Name = ''a''\<rparr>]"
        "[(\<lparr>Table = ''t'', Name = ''a''\<rparr>, Some \<lparr>Null = False, ValType_Name = ''a'', ValString = ''1''\<rparr>)]"
        "[Some \<lparr>Null = False, ValType_Name = ''a'', ValString = ''1''\<rparr>]"
        "[\<lparr>Table = ''t'', Name = ''a''\<rparr>]" "\<lparr>Table = ''t'', Name = ''b''\<rparr>" "[]"]
    checkRow_total_iff_aligned
    [of "[\<lparr>Table = ''t'', Name = ''a''\<rparr>]"
        "[(\<lparr>Table = ''t'', Name = ''a''\<rparr>, Some \<lparr>Null = False, ValType_Name = ''a'', ValString = ''1''\<rparr>)]"
        "[Some \<lparr>Null = False, ValType_Name = ''a'', ValString = ''1''\<rparr>,
          Some \<lparr>Null = False, ValType_Name = ''b'', ValString = ''x''\<rparr>]"
        "[\<lparr>Table = ''t'', Name = ''a''\<rparr>]" "\<lparr>Table = ''t'', Name = ''b''\<rparr>" "[]"]
    checkRow_total_iff_aligned
    [of "[\<lparr>Table = ''t'', Name = ''a''\<rparr>]"
        "[(\<lparr>Table = ''t'', Name = ''a''\<rparr>, Some \<lparr>Null = False, ValType_Name = ''a'', ValString = ''1''\<rparr>)]"
        "[Some \<lparr>Null = False, ValType_Name = ''a'', ValString = ''2''\<rparr>]"
        "[]" "\<lparr>Table = ''t'', Name = ''a''\<rparr>" "[\<lparr>Table = ''t'', Name = ''b''\<rparr>]"]
  by (simp add: lookup_def checkRow_def)

text \<open>
  C9, as stated, fails: with an output column that has no recorded cell, and with a
  result row shorter than the output columns, \<^verbatim>\<open>checkRow\<close> returns false when an
  earlier column mismatches.
\<close>

theorem checkRow_absent_key_counterexample:
  "lookup
     [(\<lparr>Table = ''t'', Name = ''a''\<rparr>, Some \<lparr>Null = False, ValType_Name = ''a'', ValString = ''1''\<rparr>)]
     \<lparr>Table = ''t'', Name = ''b''\<rparr> = None
   \<and> checkRow
     [(\<lparr>Table = ''t'', Name = ''a''\<rparr>, Some \<lparr>Null = False, ValType_Name = ''a'', ValString = ''1''\<rparr>)]
     [\<lparr>Table = ''t'', Name = ''a''\<rparr>, \<lparr>Table = ''t'', Name = ''b''\<rparr>]
     [Some \<lparr>Null = False, ValType_Name = ''a'', ValString = ''2''\<rparr>,
      Some \<lparr>Null = False, ValType_Name = ''b'', ValString = ''x''\<rparr>] = Ok False
   \<and> length [Some \<lparr>Null = False, ValType_Name = ''a'', ValString = ''2''\<rparr>]
       < length [\<lparr>Table = ''t'', Name = ''a''\<rparr>, \<lparr>Table = ''t'', Name = ''b''\<rparr>]
   \<and> checkRow
     [(\<lparr>Table = ''t'', Name = ''a''\<rparr>, Some \<lparr>Null = False, ValType_Name = ''a'', ValString = ''1''\<rparr>),
      (\<lparr>Table = ''t'', Name = ''b''\<rparr>, Some \<lparr>Null = False, ValType_Name = ''b'', ValString = ''x''\<rparr>)]
     [\<lparr>Table = ''t'', Name = ''a''\<rparr>, \<lparr>Table = ''t'', Name = ''b''\<rparr>]
     [Some \<lparr>Null = False, ValType_Name = ''a'', ValString = ''2''\<rparr>] = Ok False"
  by (simp add: lookup_def checkRow_def)
section \<open>Properties of pivot selection\<close>













subsection \<open>The empty table list\<close>

lemma record_cells_panic:
  "record_cells name cells result = Panic e \<Longrightarrow> e = NilDeref"
  by (induction cells arbitrary: result) (auto split: option.splits)

lemma pivot_loop_panic:
  "pivot_loop env ts result used w = Panic e \<Longrightarrow> e \<noteq> SliceBounds"
proof (induction ts arbitrary: result used w)
  case Nil
  then show ?case by simp
next
  case (Cons i ts)
  then show ?case
    by (auto split: prod.splits sum.splits list.splits res.splits
        dest: record_cells_panic)
qed

lemma ChoosePivotedRow_no_tables:
  assumes "elems (Tables p) = []" and "fst (Shuffle env 0 w) = []"
  shows "ChoosePivotedRow_count env p w = (1, w)"
    and "ChoosePivotedRow env p w = Panic SliceBounds \<longleftrightarrow> spare (Tables p) = []"
proof -
  show c: "ChoosePivotedRow_count env p w = (1, w)"
    using assms(1) by (simp add: ChoosePivotedRow_count_def)
  obtain w2 where sh: "Shuffle env 0 w = ([], w2)"
    using assms(2) by (cases "Shuffle env 0 w") simp
  show "ChoosePivotedRow env p w = Panic SliceBounds \<longleftrightarrow> spare (Tables p) = []"
  proof (cases "spare (Tables p)")
    case Nil
    then show ?thesis
      using assms(1) c sh
      by (simp add: ChoosePivotedRow_def ChoosePivotedRow_usedTables_def slice_to_def)
  next
    case (Cons y ys)
    then have "ChoosePivotedRow_usedTables env p w =
        Ok ([y], p\<lparr>Tables := (Tables p)\<lparr>elems := []\<rparr>\<rparr>, w2)"
      using assms(1) c sh
      by (simp add: ChoosePivotedRow_usedTables_def slice_to_def)
    then have "ChoosePivotedRow env p w \<noteq> Panic SliceBounds"
      using pivot_loop_panic [of env "[y]" "[]" "[]" w2]
      by (auto simp: ChoosePivotedRow_def split: res.splits)
    with Cons show ?thesis by simp
  qed
qed

lemma Init_no_tables:
  assumes "fst (FetchTables env (DBName p) w) = Inr []"
  shows "Init env p w = Ok (p\<lparr>Tables := make_Tables\<rparr>, snd (FetchTables env (DBName p) w))"
  using assms by (cases "FetchTables env (DBName p) w") (simp add: Init_def)

text \<open>
  C10. On an empty table list the count is still 1. With no spare capacity behind the
  empty list, as in the snapshot that \<^verbatim>\<open>Init\<close> builds when the database has no
  table, the slice expression panics with slice bounds out of range, and nothing is
  returned. (The shuffle of an empty list makes no swap.)
\<close>

theorem ChoosePivotedRow_empty_panics:
  "(elems (Tables p) = [] \<and> spare (Tables p) = [] \<and> fst (Shuffle env 0 w) = [] \<longrightarrow>
      ChoosePivotedRow_count env p w = (1, w) \<and>
      ChoosePivotedRow env p w = Panic SliceBounds)
   \<and> (fst (FetchTables env (DBName p) w) = Inr [] \<longrightarrow>
        (\<exists>p1 w1. Init env p w = Ok (p1, w1) \<and> elems (Tables p1) = [] \<and>
           (fst (Shuffle env 0 w1) = [] \<longrightarrow>
              ChoosePivotedRow env p1 w1 = Panic SliceBounds)))"
proof (rule conjI; rule impI)
  assume a: "elems (Tables p) = [] \<and> spare (Tables p) = [] \<and> fst (Shuffle env 0 w) = []"
  then show "ChoosePivotedRow_count env p w = (1, w) \<and>
      ChoosePivotedRow env p w = Panic SliceBounds"
    using ChoosePivotedRow_no_tables [of p env w] by simp
next
  assume f: "fst (FetchTables env (DBName p) w) = Inr []"
  let ?p1 = "p\<lparr>Tables := make_Tables\<rparr>"
  let ?w1 = "snd (FetchTables env (DBName p) w)"
  have i: "Init env p w = Ok (?p1, ?w1)" using f by (rule Init_no_tables)
  have e: "elems (Tables ?p1) = []" and s: "spare (Tables ?p1) = []"
    by (simp_all add: make_Tables_def)
  have "fst (Shuffle env 0 ?w1) = [] \<longrightarrow> ChoosePivotedRow env ?p1 ?w1 = Panic SliceBounds"
    using ChoosePivotedRow_no_tables(2) [OF e, of env ?w1] s by simp
  with i e show "\<exists>p1 w1. Init env p w = Ok (p1, w1) \<and> elems (Tables p1) = [] \<and>
           (fst (Shuffle env 0 w1) = [] \<longrightarrow>
              ChoosePivotedRow env p1 w1 = Panic SliceBounds)"
    by blast
qed

theorem ChoosePivotedRow_empty_panics_witness:
  "fst (FetchTables scripted ''test'' []) = Inr []
   \<and> fst (Shuffle scripted 0 []) = []
   \<and> Init scripted \<lparr>DBName = ''test'', Tables = \<lparr>elems = [mk_Table ''t''], spare = []\<rparr>\<rparr> []
       = Ok (\<lparr>DBName = ''test'', Tables = \<lparr>elems = [], spare = []\<rparr>\<rparr>, [])
   \<and> ChoosePivotedRow_count scripted
        \<lparr>DBName = ''test'', Tables = \<lparr>elems = [], spare = []\<rparr>\<rparr> [] = (1, [])
   \<and> ChoosePivotedRow scripted
        \<lparr>DBName = ''test'', Tables = \<lparr>elems = [], spare = []\<rparr>\<rparr> [] = Panic SliceBounds"
  using ChoosePivotedRow_empty_panics
    [of "\<lparr>DBName = ''test'', Tables = \<lparr>elems = [], spare = []\<rparr>\<rparr>" scripted "[]"]
    ChoosePivotedRow_empty_panics
    [of "\<lparr>DBName = ''test'', Tables = \<lparr>elems = [mk_Table ''t''], spare = []\<rparr>\<rparr>" scripted "[]"]
  by (simp add: scripted_def Init_def make_Tables_def)

subsection \<open>The loop over the candidates\<close>

lemma selectSQL_eq_iff:
  "selectSQL a = selectSQL b \<longleftrightarrow> CIStr_O (Table_Name a) = CIStr_O (Table_Name b)"
  by (simp add: selectSQL_def)

lemma pivot_loop_append:
  "pivot_loop env (ts @ ts') result used w =
     (case pivot_loop env ts result used w of
        Panic e \<Rightarrow> Panic e
      | Ok (result1, used1, w1) \<Rightarrow> pivot_loop env ts' result1 used1 w1)"
proof (induction ts arbitrary: result used w)
  case Nil
  then show ?case by simp
next
  case (Cons i ts)
  note IH = Cons.IH
  obtain r w1 where sel: "execSelect env (selectSQL i) w = (r, w1)"
    by (cases "execSelect env (selectSQL i) w")
  show ?case
  proof (cases r)
    case (Inl e)
    with sel show ?thesis by simp
  next
    case (Inr exeRes)
    note r = this
    show ?thesis
    proof (cases exeRes)
      case Nil
      with sel r IH show ?thesis by simp
    next
      case (Cons row rows)
      note ex = this
      show ?thesis
      proof (cases "record_cells (CIStr_O (Table_Name i)) row result")
        case (Panic e)
        with sel r ex show ?thesis by simp
      next
        case (Ok result1)
        with sel r ex IH show ?thesis by simp
      qed
    qed
  qed
qed

lemma pivot_loop_skip:
  assumes "fst (execSelect env (selectSQL t) w) = Inr []"
  shows "pivot_loop env (t # ts) result used w =
           pivot_loop env ts result used (snd (execSelect env (selectSQL t) w))"
  using assms by (cases "execSelect env (selectSQL t) w") simp

lemma record_cells_append:
  "record_cells name (xs @ ys) result =
     (case record_cells name xs result of
        Panic e \<Rightarrow> Panic e
      | Ok result1 \<Rightarrow> record_cells name ys result1)"
  by (induction xs arbitrary: result) (simp_all split: option.splits)

lemma record_cells_keys:
  "record_cells name cells result = Ok result' \<Longrightarrow> k \<in> fst ` set result' \<Longrightarrow>
     k \<in> fst ` set result \<or> Table k = name"
proof (induction cells arbitrary: result)
  case Nil
  then show ?case by simp
next
  case (Cons c cells)
  from Cons.prems(1) obtain item where c: "c = Some item"
    and rest: "record_cells name cells
      (AList.update \<lparr>Table = name, Name = ValType_Name item\<rparr> c result) = Ok result'"
    by (cases c) auto
  from Cons.IH [OF rest Cons.prems(2)] show ?case
    by (auto simp: dom_update)
qed

lemma record_cells_frame:
  "record_cells name cells result = Ok result' \<Longrightarrow>
     Table k \<noteq> name \<or> (\<forall>d. Some d \<in> set cells \<longrightarrow> ValType_Name d \<noteq> Name k) \<Longrightarrow>
     map_of result' k = map_of result k"
proof (induction cells arbitrary: result)
  case Nil
  then show ?case by simp
next
  case (Cons c cells)
  from Cons.prems(1) obtain item where c: "c = Some item"
    and rest: "record_cells name cells
      (AList.update \<lparr>Table = name, Name = ValType_Name item\<rparr> c result) = Ok result'"
    by (cases c) auto
  have ne: "\<lparr>Table = name, Name = ValType_Name item\<rparr> \<noteq> k"
    using Cons.prems(2) c by auto
  have "map_of result' k =
      map_of (AList.update \<lparr>Table = name, Name = ValType_Name item\<rparr> c result) k"
    using Cons.IH [OF rest] Cons.prems(2) by auto
  also have "\<dots> = map_of result k"
    using ne by (simp add: update_conv')
  finally show ?case .
qed

lemma record_cells_last:
  assumes "record_cells name (pre @ Some c # post) result = Ok result'"
    and "\<forall>d. Some d \<in> set post \<longrightarrow> ValType_Name d \<noteq> ValType_Name c"
  shows "map_of result' \<lparr>Table = name, Name = ValType_Name c\<rparr> = Some (Some c)"
proof -
  from assms(1) obtain result1 where
    "record_cells name pre result = Ok result1"
    and post: "record_cells name post
      (AList.update \<lparr>Table = name, Name = ValType_Name c\<rparr> (Some c) result1) = Ok result'"
    by (auto simp: record_cells_append split: res.splits)
  have "map_of result' \<lparr>Table = name, Name = ValType_Name c\<rparr> =
      map_of (AList.update \<lparr>Table = name, Name = ValType_Name c\<rparr> (Some c) result1)
        \<lparr>Table = name, Name = ValType_Name c\<rparr>"
    using record_cells_frame [OF post, of "\<lparr>Table = name, Name = ValType_Name c\<rparr>"] assms(2)
    by simp
  then show ?thesis by (simp add: update_conv')
qed

lemma pivot_loop_frame:
  "pivot_loop env ts result used w = Ok (result', used', w') \<Longrightarrow>
     \<forall>t'\<in>set ts. CIStr_O (Table_Name t') \<noteq> Table k \<Longrightarrow>
     map_of result' k = map_of result k"
proof (induction ts arbitrary: result used w)
  case Nil
  then show ?case by simp
next
  case (Cons i ts)
  note IH = Cons.IH and run = Cons.prems(1) and others = Cons.prems(2)
  obtain r w1 where sel: "execSelect env (selectSQL i) w = (r, w1)"
    by (cases "execSelect env (selectSQL i) w")
  from run sel obtain exeRes where r: "r = Inr exeRes"
    by (cases r) auto
  have later: "\<forall>t'\<in>set ts. CIStr_O (Table_Name t') \<noteq> Table k"
    using others by simp
  have this_one: "CIStr_O (Table_Name i) \<noteq> Table k"
    using others by simp
  show ?case
  proof (cases exeRes)
    case Nil
    with run sel r have "pivot_loop env ts result used w1 = Ok (result', used', w')"
      by simp
    from IH [OF this later] show ?thesis .
  next
    case (Cons row rows)
    with run sel r obtain result1 where
      rc: "record_cells (CIStr_O (Table_Name i)) row result = Ok result1"
      and rest: "pivot_loop env ts result1 (used @ [i]) w1 = Ok (result', used', w')"
      by (cases "record_cells (CIStr_O (Table_Name i)) row result") simp_all
    have "map_of result1 k = map_of result k"
      using record_cells_frame [OF rc, of k] this_one by simp
    with IH [OF rest later] show ?thesis by simp
  qed
qed

lemma pivot_loop_empty_table:
  assumes empty: "\<forall>w. fst (execSelect env (selectSQL t) w) = Inr []"
  shows "pivot_loop env ts result used w = Ok (result', used', w') \<Longrightarrow>
     (t \<notin> set used \<longrightarrow> t \<notin> set used') \<and>
     (\<forall>k\<in>fst ` set result'. Table k = CIStr_O (Table_Name t) \<longrightarrow> k \<in> fst ` set result)"
proof (induction ts arbitrary: result used w)
  case Nil
  then show ?case by simp
next
  case (Cons i ts)
  note IH = Cons.IH and run = Cons.prems(1)
  obtain r w1 where sel: "execSelect env (selectSQL i) w = (r, w1)"
    by (cases "execSelect env (selectSQL i) w")
  from run sel obtain exeRes where r: "r = Inr exeRes"
    by (cases r) auto
  show ?case
  proof (cases exeRes)
    case Nil
    with run sel r have "pivot_loop env ts result used w1 = Ok (result', used', w')"
      by simp
    from IH [OF this] show ?thesis .
  next
    case (Cons row rows)
    note ex = this
    have "selectSQL i \<noteq> selectSQL t"
    proof
      assume "selectSQL i = selectSQL t"
      then have "fst (execSelect env (selectSQL i) w) = Inr []" using empty by simp
      with sel r ex show False by simp
    qed
    then have name: "CIStr_O (Table_Name i) \<noteq> CIStr_O (Table_Name t)"
      by (simp add: selectSQL_eq_iff)
    then have it: "i \<noteq> t" by auto
    from ex run sel r obtain result1 where
      rc: "record_cells (CIStr_O (Table_Name i)) row result = Ok result1"
      and rest: "pivot_loop env ts result1 (used @ [i]) w1 = Ok (result', used', w')"
      by (cases "record_cells (CIStr_O (Table_Name i)) row result") simp_all
    have keys1: "k \<in> fst ` set result" if "k \<in> fst ` set result1"
      and "Table k = CIStr_O (Table_Name t)" for k
      using record_cells_keys [OF rc that(1)] that(2) name by simp
    note step = IH [OF rest]
    show ?thesis
    proof (intro conjI impI ballI)
      assume "t \<notin> set used"
      then have "t \<notin> set (used @ [i])" using it by simp
      with step show "t \<notin> set used'" by simp
    next
      fix k assume k: "k \<in> fst ` set result'" "Table k = CIStr_O (Table_Name t)"
      with step have "k \<in> fst ` set result1" by blast
      then show "k \<in> fst ` set result" using k(2) by (rule keys1)
    qed
  qed
qed

text \<open>
  C5. A candidate whose query returns zero rows is passed over: the loop goes on with
  the remaining candidates from the same result map and the same list of used tables,
  so that candidate records no cell, is not appended, and raises nothing. And a table
  whose query returns zero rows whenever it is asked is not among the used tables that
  \<^verbatim>\<open>ChoosePivotedRow\<close> returns, nor has the returned map a key of that table.
\<close>

theorem ChoosePivotedRow_skips_empty_table:
  "(fst (execSelect env (selectSQL t) w) = Inr [] \<longrightarrow>
      pivot_loop env (t # ts) result used w =
        pivot_loop env ts result used (snd (execSelect env (selectSQL t) w)))
   \<and> ((\<forall>w. fst (execSelect env (selectSQL t) w) = Inr []) \<and>
        ChoosePivotedRow env p w = Ok ((result', used', e), p', w') \<longrightarrow>
        t \<notin> set used' \<and>
        (\<forall>k\<in>set (map fst result'). Table k \<noteq> CIStr_O (Table_Name t)))"
proof (rule conjI; rule impI)
  assume "fst (execSelect env (selectSQL t) w) = Inr []"
  then show "pivot_loop env (t # ts) result used w =
        pivot_loop env ts result used (snd (execSelect env (selectSQL t) w))"
    by (rule pivot_loop_skip)
next
  assume a: "(\<forall>w. fst (execSelect env (selectSQL t) w) = Inr []) \<and>
        ChoosePivotedRow env p w = Ok ((result', used', e), p', w')"
  then obtain usedTables p1 w1 where
    "pivot_loop env usedTables [] [] w1 = Ok (result', used', w')"
    by (auto simp: ChoosePivotedRow_def split: res.splits)
  from pivot_loop_empty_table [OF conjunct1 [OF a] this]
  show "t \<notin> set used' \<and>
        (\<forall>k\<in>set (map fst result'). Table k \<noteq> CIStr_O (Table_Name t))"
    by auto
qed

theorem ChoosePivotedRow_skips_empty_table_witness:
  "fst (execSelect with_empty_table (selectSQL (mk_Table ''e'')) []) = Inr []
   \<and> pivot_loop with_empty_table [mk_Table ''e'', mk_Table ''u''] [] [] []
       = Ok ([(\<lparr>Table = ''u'', Name = ''a''\<rparr>, mk_cell ''a'' ''1'')], [mk_Table ''u''], [])
   \<and> ChoosePivotedRow with_empty_table
        \<lparr>DBName = ''test'',
         Tables = \<lparr>elems = [mk_Table ''t'', mk_Table ''e'', mk_Table ''u''], spare = []\<rparr>\<rparr> []
       = Ok (([(\<lparr>Table = ''u'', Name = ''a''\<rparr>, mk_cell ''a'' ''1'')], [mk_Table ''u''], None),
             \<lparr>DBName = ''test'',
              Tables = \<lparr>elems = [mk_Table ''u'', mk_Table ''e'', mk_Table ''t''], spare = []\<rparr>\<rparr>,
             [])
   \<and> mk_Table ''e'' \<notin> set [mk_Table ''u'']"
proof -
  have sel: "\<And>stmt w. execSelect with_empty_table stmt w =
      (if stmt = selectSQL (mk_Table ''e'') then Inr [] else Inr [[mk_cell ''a'' ''1'']], w)"
    by (simp add: execSelect_def with_empty_table_def)
  have ne: "selectSQL (mk_Table ''u'') \<noteq> selectSQL (mk_Table ''e'')"
    by (simp add: selectSQL_def mk_Table_def)
  have loop: "pivot_loop with_empty_table [mk_Table ''u''] [] [] []
       = Ok ([(\<lparr>Table = ''u'', Name = ''a''\<rparr>, mk_cell ''a'' ''1'')], [mk_Table ''u''], [])"
    by (simp add: sel selectSQL_def mk_Table_def mk_cell_def)
  have cands: "ChoosePivotedRow_usedTables with_empty_table
        \<lparr>DBName = ''test'',
         Tables = \<lparr>elems = [mk_Table ''t'', mk_Table ''e'', mk_Table ''u''], spare = []\<rparr>\<rparr> []
       = Ok ([mk_Table ''u'', mk_Table ''e''],
             \<lparr>DBName = ''test'',
              Tables = \<lparr>elems = [mk_Table ''u'', mk_Table ''e'', mk_Table ''t''], spare = []\<rparr>\<rparr>,
             [])"
    by (simp add: ChoosePivotedRow_usedTables_def ChoosePivotedRow_count_def
        with_empty_table_def scripted_def swap_Tables_def slice_to_def)
  have loop2: "pivot_loop with_empty_table [mk_Table ''u'', mk_Table ''e''] [] [] []
       = Ok ([(\<lparr>Table = ''u'', Name = ''a''\<rparr>, mk_cell ''a'' ''1'')], [mk_Table ''u''], [])"
    by (simp add: sel selectSQL_def mk_Table_def mk_cell_def)
  have run: "ChoosePivotedRow with_empty_table
        \<lparr>DBName = ''test'',
         Tables = \<lparr>elems = [mk_Table ''t'', mk_Table ''e'', mk_Table ''u''], spare = []\<rparr>\<rparr> []
       = Ok (([(\<lparr>Table = ''u'', Name = ''a''\<rparr>, mk_cell ''a'' ''1'')], [mk_Table ''u''], None),
             \<lparr>DBName = ''test'',
              Tables = \<lparr>elems = [mk_Table ''u'', mk_Table ''e'', mk_Table ''t''], spare = []\<rparr>\<rparr>,
             [])"
    by (simp add: ChoosePivotedRow_def cands loop2 del: pivot_loop.simps)
  show ?thesis
    using ChoosePivotedRow_skips_empty_table
      [of with_empty_table "mk_Table ''e''" "[]" "[mk_Table ''u'']" "[]" "[]"
          "\<lparr>DBName = ''test'',
            Tables = \<lparr>elems = [mk_Table ''t'', mk_Table ''e'', mk_Table ''u''], spare = []\<rparr>\<rparr>"
          "[(\<lparr>Table = ''u'', Name = ''a''\<rparr>, mk_cell ''a'' ''1'')]" "[mk_Table ''u'']" None
          "\<lparr>DBName = ''test'',
            Tables = \<lparr>elems = [mk_Table ''u'', mk_Table ''e'', mk_Table ''t''], spare = []\<rparr>\<rparr>"
          "[]"]
    by (simp add: sel loop run del: pivot_loop.simps)
qed

text \<open>
  C6. Let a candidate's row hold a cell \<open>c\<close>, the last of that row with its type
  identifier, and let no later candidate have that candidate's table name (the key of
  a cell begins with the table name). Then the returned map holds \<open>c\<close> under the key
  of \<open>c\<close>, whatever the earlier candidates recorded under that key.
\<close>

theorem ChoosePivotedRow_last_writer_wins:
  assumes "ChoosePivotedRow_usedTables env p w0 = Ok (ts @ t # ts', p', w)"
    and "pivot_loop env ts [] [] w = Ok (result1, used1, w1)"
    and "execSelect env (selectSQL t) w1 = (Inr ((pre @ Some c # post) # rows), w2)"
    and "\<forall>d. Some d \<in> set post \<longrightarrow> ValType_Name d \<noteq> ValType_Name c"
    and "\<forall>t'\<in>set ts'. CIStr_O (Table_Name t') \<noteq> CIStr_O (Table_Name t)"
    and "ChoosePivotedRow env p w0 = Ok ((result', used', e), p'', w')"
  shows "lookup result' \<lparr>Table = CIStr_O (Table_Name t), Name = ValType_Name c\<rparr> = Some c"
proof -
  let ?k = "\<lparr>Table = CIStr_O (Table_Name t), Name = ValType_Name c\<rparr>"
  have "pivot_loop env (ts @ t # ts') [] [] w = Ok (result', used', w')"
    using assms(1,6) by (auto simp: ChoosePivotedRow_def split: res.splits)
  then have "pivot_loop env (t # ts') result1 used1 w1 = Ok (result', used', w')"
    using assms(2) by (simp add: pivot_loop_append)
  then obtain result2 where
    rc: "record_cells (CIStr_O (Table_Name t)) (pre @ Some c # post) result1 = Ok result2"
    and rest: "pivot_loop env ts' result2 (used1 @ [t]) w2 = Ok (result', used', w')"
    using assms(3)
    by (cases "record_cells (CIStr_O (Table_Name t)) (pre @ Some c # post) result1")
      simp_all
  have "map_of result2 ?k = Some (Some c)"
    using rc assms(4) by (rule record_cells_last)
  moreover have "map_of result' ?k = map_of result2 ?k"
    using rest assms(5) by (intro pivot_loop_frame [where k = ?k]) simp_all
  ultimately show ?thesis by (simp add: lookup_def)
qed

theorem ChoosePivotedRow_last_writer_wins_witness:
  "pivot_loop scripted [mk_Table ''t''] [] []
      [[[mk_cell ''a'' ''1'']], [[mk_cell ''a'' ''2'']]]
     = Ok ([(\<lparr>Table = ''t'', Name = ''a''\<rparr>, mk_cell ''a'' ''1'')], [mk_Table ''t''],
           [[[mk_cell ''a'' ''2'']]])
   \<and> ChoosePivotedRow scripted
        \<lparr>DBName = ''test'',
         Tables = \<lparr>elems = [mk_Table ''x'', mk_Table ''t'', mk_Table ''t''], spare = []\<rparr>\<rparr>
        [[[mk_cell ''a'' ''1'']], [[mk_cell ''a'' ''2'']]]
       = Ok (([(\<lparr>Table = ''t'', Name = ''a''\<rparr>, mk_cell ''a'' ''2'')],
              [mk_Table ''t'', mk_Table ''t''], None),
             \<lparr>DBName = ''test'',
              Tables = \<lparr>elems = [mk_Table ''t'', mk_Table ''t'', mk_Table ''x''], spare = []\<rparr>\<rparr>,
             [])
   \<and> lookup [(\<lparr>Table = ''t'', Name = ''a''\<rparr>, mk_cell ''a'' ''2'')]
        \<lparr>Table = ''t'', Name = ''a''\<rparr>
       = Some \<lparr>Null = False, ValType_Name = ''a'', ValString = ''2''\<rparr>"
proof -
  let ?p = "\<lparr>DBName = ''test'',
         Tables = \<lparr>elems = [mk_Table ''x'', mk_Table ''t'', mk_Table ''t''], spare = []\<rparr>\<rparr>"
  let ?p' = "\<lparr>DBName = ''test'',
         Tables = \<lparr>elems = [mk_Table ''t'', mk_Table ''t'', mk_Table ''x''], spare = []\<rparr>\<rparr>"
  let ?w = "[[[mk_cell ''a'' ''1'']], [[mk_cell ''a'' ''2'']]]"
  let ?c = "\<lparr>Null = False, ValType_Name = ''a'', ValString = ''2''\<rparr>"
  have sel: "\<And>stmt r rs. execSelect scripted stmt (r # rs) = (Inr r, rs)"
    by (simp add: execSelect_def scripted_def)
  have cands: "ChoosePivotedRow_usedTables scripted ?p ?w
       = Ok ([mk_Table ''t''] @ mk_Table ''t'' # [], ?p', ?w)"
    by (simp add: ChoosePivotedRow_usedTables_def ChoosePivotedRow_count_def
        scripted_def swap_Tables_def slice_to_def)
  have first: "pivot_loop scripted [mk_Table ''t''] [] [] ?w
     = Ok ([(\<lparr>Table = ''t'', Name = ''a''\<rparr>, mk_cell ''a'' ''1'')], [mk_Table ''t''],
           [[[mk_cell ''a'' ''2'']]])"
    by (simp add: sel mk_Table_def mk_cell_def)
  have second: "execSelect scripted (selectSQL (mk_Table ''t'')) [[[mk_cell ''a'' ''2'']]]
     = (Inr (([] @ Some ?c # []) # []), [])"
    by (simp add: sel mk_cell_def)
  have last: "\<forall>d. Some d \<in> set [] \<longrightarrow> ValType_Name d \<noteq> ValType_Name ?c"
    by simp
  have later: "\<forall>t'\<in>set []. CIStr_O (Table_Name t') \<noteq> CIStr_O (Table_Name (mk_Table ''t''))"
    by simp
  have loop: "pivot_loop scripted [mk_Table ''t'', mk_Table ''t''] [] [] ?w
     = Ok ([(\<lparr>Table = ''t'', Name = ''a''\<rparr>, mk_cell ''a'' ''2'')],
           [mk_Table ''t'', mk_Table ''t''], [])"
    by (simp add: sel mk_Table_def mk_cell_def)
  have run: "ChoosePivotedRow scripted ?p ?w
       = Ok (([(\<lparr>Table = ''t'', Name = ''a''\<rparr>, mk_cell ''a'' ''2'')],
              [mk_Table ''t'', mk_Table ''t''], None), ?p', [])"
    using cands by (simp add: ChoosePivotedRow_def loop del: pivot_loop.simps)
  from ChoosePivotedRow_last_writer_wins [OF cands first second last later run]
  show ?thesis using first run by (simp add: mk_Table_def)
qed

section \<open>Properties of the error handling and of the worker\<close>

lemma never_failing_simps [simp]:
  "Exec (never_failing env) stmt w = (None, snd (Exec env stmt w))"
  "ReloadSchema (never_failing env) w = (None, snd (ReloadSchema env w))"
  "Intn (never_failing env) = Intn env"
  "GenerateDDLCreateTable (never_failing env) = GenerateDDLCreateTable env"
  "GenerateDDLCreateIndex (never_failing env) = GenerateDDLCreateIndex env"
  "GenerateDMLInsertByTable (never_failing env) = GenerateDMLInsertByTable env"
  "GetTables (never_failing env) = GetTables env"
  by (simp_all add: never_failing_def Intn_def fun_eq_iff)


subsection \<open>Bootstrap\<close>

lemma create_tables_never_failing:
  "snd (create_tables (never_failing env) i lg' w) = snd (create_tables env i lg w) \<and>
   fst (create_tables (never_failing env) i lg' w) = lg'"
proof (induction env i lg w arbitrary: lg' rule: create_tables.induct)
  case (1 env i lg w)
  obtain k w1 where draw: "Intn env 10 w = (k, w1)" by (cases "Intn env 10 w")
  show ?case
  proof (cases "i < k + 1")
    case False
    with draw show ?thesis
      by (simp add: create_tables.simps [of env i lg w]
          create_tables.simps [of "never_failing env" i lg' w])
  next
    case True
    obtain sql w2 where gen: "GenerateDDLCreateTable env w1 = (sql, w2)"
      by (cases "GenerateDDLCreateTable env w1")
    obtain r w3 where ex: "Exec env (SQLStmt sql) w2 = (r, w3)"
      by (cases "Exec env (SQLStmt sql) w2")
    have quiet: "create_tables (never_failing env) i lg' w =
        create_tables (never_failing env) (i + 1) lg' w3"
      using draw True gen ex
      by (simp add: create_tables.simps [of "never_failing env" i lg' w])
    show ?thesis
    proof (cases r)
      case None
      have "create_tables env i lg w = create_tables env (i + 1) lg w3"
        using draw True gen ex None by (simp add: create_tables.simps [of env i lg w])
      moreover have "snd (create_tables (never_failing env) (i + 1) lg' w3) =
            snd (create_tables env (i + 1) lg w3) \<and>
          fst (create_tables (never_failing env) (i + 1) lg' w3) = lg'"
        using "1.IH"(1) [OF draw [symmetric] True gen [symmetric] ex [unfolded None, symmetric]]
        by simp
      ultimately show ?thesis using quiet by simp
    next
      case (Some e)
      let ?lg = "lg @ [LogError ''create table failed'' (SQLStmt sql) e]"
      have "create_tables env i lg w = create_tables env (i + 1) ?lg w3"
        using draw True gen ex Some by (simp add: create_tables.simps [of env i lg w])
      moreover have "snd (create_tables (never_failing env) (i + 1) lg' w3) =
            snd (create_tables env (i + 1) ?lg w3) \<and>
          fst (create_tables (never_failing env) (i + 1) lg' w3) = lg'"
        using "1.IH"(2) [OF draw [symmetric] True gen [symmetric] ex [unfolded Some, symmetric]]
        by simp
      ultimately show ?thesis using quiet by simp
    qed
  qed
qed

lemma create_indexes_never_failing:
  "snd (create_indexes (never_failing env) i lg' w) = snd (create_indexes env i lg w) \<and>
   fst (create_indexes (never_failing env) i lg' w) = lg'"
proof (induction env i lg w arbitrary: lg' rule: create_indexes.induct)
  case (1 env i lg w)
  obtain k w1 where draw: "Intn env 10 w = (k, w1)" by (cases "Intn env 10 w")
  show ?case
  proof (cases "i < k")
    case False
    with draw show ?thesis
      by (simp add: create_indexes.simps [of env i lg w]
          create_indexes.simps [of "never_failing env" i lg' w])
  next
    case True
    obtain sql w2 where gen: "GenerateDDLCreateIndex env ddlOpt w1 = (sql, w2)"
      by (cases "GenerateDDLCreateIndex env ddlOpt w1")
    obtain r w3 where ex: "Exec env (SQLStmt sql) w2 = (r, w3)"
      by (cases "Exec env (SQLStmt sql) w2")
    have quiet: "create_indexes (never_failing env) i lg' w =
        create_indexes (never_failing env) (i + 1) lg' w3"
      using draw True gen ex
      by (simp add: create_indexes.simps [of "never_failing env" i lg' w])
    show ?thesis
    proof (cases r)
      case None
      have "create_indexes env i lg w = create_indexes env (i + 1) lg w3"
        using draw True gen ex None by (simp add: create_indexes.simps [of env i lg w])
      moreover have "snd (create_indexes (never_failing env) (i + 1) lg' w3) =
            snd (create_indexes env (i + 1) lg w3) \<and>
          fst (create_indexes (never_failing env) (i + 1) lg' w3) = lg'"
        using "1.IH"(1) [OF draw [symmetric] True gen [symmetric] ex [unfolded None, symmetric]]
        by simp
      ultimately show ?thesis using quiet by simp
    next
      case (Some e)
      let ?lg = "lg @ [LogError ''create index failed'' (SQLStmt sql) e]"
      have "create_indexes env i lg w = create_indexes env (i + 1) ?lg w3"
        using draw True gen ex Some by (simp add: create_indexes.simps [of env i lg w])
      moreover have "snd (create_indexes (never_failing env) (i + 1) lg' w3) =
            snd (create_indexes env (i + 1) ?lg w3) \<and>
          fst (create_indexes (never_failing env) (i + 1) lg' w3) = lg'"
        using "1.IH"(2) [OF draw [symmetric] True gen [symmetric] ex [unfolded Some, symmetric]]
        by simp
      ultimately show ?thesis using quiet by simp
    qed
  qed
qed

lemma insert_tables_never_failing:
  "snd (insert_tables (never_failing env) tables lg' w) = snd (insert_tables env tables lg w) \<and>
   fst (insert_tables (never_failing env) tables lg' w) = lg'"
proof (induction tables arbitrary: lg lg' w)
  case Nil
  then show ?case by simp
next
  case (Cons t tables)
  obtain sql w1 where gen: "GenerateDMLInsertByTable env t w = (sql, w1)"
    by (cases "GenerateDMLInsertByTable env t w")
  obtain r w2 where ex: "Exec env (SQLStmt sql) w1 = (r, w2)"
    by (cases "Exec env (SQLStmt sql) w1")
  show ?case
  proof (cases r)
    case None
    with gen ex Cons.IH [of lg' w2 lg] show ?thesis by simp
  next
    case (Some e)
    with gen ex Cons.IH [of lg' w2 "lg @ [LogError ''insert data failed'' (SQLStmt sql) e]"]
    show ?thesis by simp
  qed
qed

lemma prepare_never_failing:
  "snd (prepare (never_failing env) w) = snd (prepare env w)"
  "fst (prepare (never_failing env) w) = []"
proof -
  obtain lg1 w1 where ct: "create_tables env 0 [] w = (lg1, w1)"
    by (cases "create_tables env 0 [] w")
  have ct': "create_tables (never_failing env) 0 [] w = ([], w1)"
    using create_tables_never_failing [of env 0 "[]" w "[]"] ct
    by (cases "create_tables (never_failing env) 0 [] w") simp
  obtain r w2 where rl: "ReloadSchema env w1 = (r, w2)"
    by (cases "ReloadSchema env w1")
  define lg2 where "lg2 = (case r of None \<Rightarrow> lg1
                        | Some e \<Rightarrow> lg1 @ [LogMessage ''reload data failed!''])"
  obtain lg3 w3 where ci: "create_indexes env 0 lg2 w2 = (lg3, w3)"
    by (cases "create_indexes env 0 lg2 w2")
  have ci': "create_indexes (never_failing env) 0 [] w2 = ([], w3)"
    using create_indexes_never_failing [of env 0 "[]" w2 lg2] ci
    by (cases "create_indexes (never_failing env) 0 [] w2") simp
  have p: "prepare env w = insert_tables env (GetTables env w3) lg3 w3"
    using ct rl ci by (simp add: prepare_def lg2_def)
  have p': "prepare (never_failing env) w =
      insert_tables (never_failing env) (GetTables env w3) [] w3"
    using ct' rl ci' by (simp add: prepare_def)
  show "snd (prepare (never_failing env) w) = snd (prepare env w)"
    using insert_tables_never_failing [of env "GetTables env w3" "[]" w3 lg3] p p' by simp
  show "fst (prepare (never_failing env) w) = []"
    using insert_tables_never_failing [of env "GetTables env w3" "[]" w3 lg3] p' by simp
qed

lemma create_tables_failed:
  assumes "Intn env 10 w = (k, w1)" and "i < k + 1"
    and "GenerateDDLCreateTable env w1 = (sql, w2)"
    and "Exec env (SQLStmt sql) w2 = (Some e, w3)"
  shows "create_tables env i lg w =
           create_tables env (i + 1)
             (lg @ [LogError ''create table failed'' (SQLStmt sql) e]) w3"
  using assms by (simp add: create_tables.simps [of env i lg w])

lemma create_indexes_failed:
  assumes "Intn env 10 w = (k, w1)" and "i < k"
    and "GenerateDDLCreateIndex env ddlOpt w1 = (sql, w2)"
    and "Exec env (SQLStmt sql) w2 = (Some e, w3)"
  shows "create_indexes env i lg w =
           create_indexes env (i + 1)
             (lg @ [LogError ''create index failed'' (SQLStmt sql) e]) w3"
  using assms by (simp add: create_indexes.simps [of env i lg w])

lemma insert_tables_failed:
  assumes "GenerateDMLInsertByTable env table w = (sql, w1)"
    and "Exec env (SQLStmt sql) w1 = (Some e, w2)"
  shows "insert_tables env (table # tables) lg w =
           insert_tables env tables
             (lg @ [LogError ''insert data failed'' (SQLStmt sql) e]) w2"
  using assms by simp

lemma prepare_reload_failed:
  assumes "create_tables env 0 [] w = (lg1, w1)"
    and "ReloadSchema env w1 = (Some e, w2)"
    and "create_indexes env 0 (lg1 @ [LogMessage ''reload data failed!'']) w2 = (lg3, w3)"
  shows "prepare env w = insert_tables env (GetTables env w3) lg3 w3"
  using assms by (simp add: prepare_def)

lemma prepare_reload_ok:
  assumes "create_tables env 0 [] w = (lg1, w1)"
    and "ReloadSchema env w1 = (None, w2)"
    and "create_indexes env 0 lg1 w2 = (lg3, w3)"
  shows "prepare env w = insert_tables env (GetTables env w3) lg3 w3"
  using assms by (simp add: prepare_def)

lemma create_tables_ok:
  assumes "Intn env 10 w = (k, w1)" and "i < k + 1"
    and "GenerateDDLCreateTable env w1 = (sql, w2)"
    and "Exec env (SQLStmt sql) w2 = (None, w3)"
  shows "create_tables env i lg w = create_tables env (i + 1) lg w3"
  using assms by (simp add: create_tables.simps [of env i lg w])

lemma create_indexes_ok:
  assumes "Intn env 10 w = (k, w1)" and "i < k"
    and "GenerateDDLCreateIndex env ddlOpt w1 = (sql, w2)"
    and "Exec env (SQLStmt sql) w2 = (None, w3)"
  shows "create_indexes env i lg w = create_indexes env (i + 1) lg w3"
  using assms by (simp add: create_indexes.simps [of env i lg w])

lemma insert_tables_ok:
  assumes "GenerateDMLInsertByTable env table w = (sql, w1)"
    and "Exec env (SQLStmt sql) w1 = (None, w2)"
  shows "insert_tables env (table # tables) lg w = insert_tables env tables lg w2"
  using assms by simp

subsection \<open>An iteration\<close>

lemma progress_Ok_iff:
  "progress ctx env p w = Ok (p', w') \<longleftrightarrow>
     (\<exists>pivotRows usedTables w1 stmt columns w2 resultRows.
        ChoosePivotedRow env p w = Ok ((pivotRows, usedTables, None), p', w1) \<and>
        GenSelectStmt env pivotRows usedTables w1 = (Inr (stmt, columns), w2) \<and>
        execSelect env stmt w2 = (Inr resultRows, w') \<and>
        verify pivotRows columns resultRows = Ok True)"
  unfolding progress_def
  by (auto split: res.splits prod.splits option.splits sum.splits if_splits)

lemma pivot_loop_select_error:
  "fst (execSelect env (selectSQL t) w) = Inl e \<Longrightarrow>
     pivot_loop env (t # ts) result used w = Panic (PanicErr e)"
  by (cases "execSelect env (selectSQL t) w") simp

lemma progress_Panic:
  "ChoosePivotedRow env p w = Panic e \<Longrightarrow> progress ctx env p w = Panic e"
  "ChoosePivotedRow env p w = Ok ((pivotRows, usedTables, None), p1, w1) \<Longrightarrow>
     GenSelectStmt env pivotRows usedTables w1 = (Inl e', w2) \<Longrightarrow>
     progress ctx env p w = Panic (PanicErr e')"
  "ChoosePivotedRow env p w = Ok ((pivotRows, usedTables, None), p1, w1) \<Longrightarrow>
     GenSelectStmt env pivotRows usedTables w1 = (Inr (stmt, columns), w2) \<Longrightarrow>
     execSelect env stmt w2 = (Inl e', w3) \<Longrightarrow>
     progress ctx env p w = Panic (PanicErr e')"
  "ChoosePivotedRow env p w = Ok ((pivotRows, usedTables, None), p1, w1) \<Longrightarrow>
     GenSelectStmt env pivotRows usedTables w1 = (Inr (stmt, columns), w2) \<Longrightarrow>
     execSelect env stmt w2 = (Inr resultRows, w3) \<Longrightarrow>
     verify pivotRows columns resultRows = Ok False \<Longrightarrow>
     progress ctx env p w = Panic (VerifyFailed stmt)"
  by (simp_all add: progress_def)

subsection \<open>The worker\<close>

lemma progress_ctx: "progress ctx env p w = progress ctx' env p w"
  by (simp add: progress_def)

lemma iterate_ctx: "iterate fuel ctx env p w = iterate fuel ctx' env p w"
proof (induction fuel arbitrary: ctx ctx' p w)
  case 0
  then show ?case by simp
next
  case (Suc fuel)
  show ?case
  proof (cases "progress ctx env p w")
    case (Panic e)
    then show ?thesis using progress_ctx [of ctx env p w ctx'] by simp
  next
    case (Ok r)
    obtain p' w' where r: "r = (p', w')" by (cases r)
    have "progress ctx' env p w = Ok (p', w')"
      using Ok r progress_ctx [of ctx env p w ctx'] by simp
    with Ok r Suc.IH [of "\<lambda>n. ctx (Suc n)" p' w' "\<lambda>n. ctx' (Suc n)"]
    show ?thesis by simp
  qed
qed

lemma iterate_not_Retired: "iterate fuel ctx env p w \<noteq> Retired"
  by (induction fuel arbitrary: ctx p w) (auto split: res.splits)

lemma iterate_Crashed:
  "iterate fuel ctx env p w = Crashed e \<Longrightarrow> \<exists>p' w'. progress ctx env p' w' = Panic e"
proof (induction fuel arbitrary: ctx p w)
  case 0
  then show ?case by simp
next
  case (Suc fuel)
  show ?case
  proof (cases "progress ctx env p w")
    case (Panic e')
    with Suc.prems show ?thesis by auto
  next
    case (Ok r)
    obtain p' w' where r: "r = (p', w')" by (cases r)
    with Ok Suc.prems have "iterate fuel (\<lambda>n. ctx (Suc n)) env p' w' = Crashed e" by simp
    from Suc.IH [OF this] obtain p'' w'' where
      "progress (\<lambda>n. ctx (Suc n)) env p'' w'' = Panic e" by blast
    then show ?thesis using progress_ctx [of ctx env p'' w''] by metis
  qed
qed

lemma iterate_crash_stable:
  "iterate fuel ctx env p w = Crashed e \<Longrightarrow> iterate (fuel + extra) ctx env p w = Crashed e"
proof (induction fuel arbitrary: ctx p w)
  case 0
  then show ?case by simp
next
  case (Suc fuel)
  show ?case
  proof (cases "progress ctx env p w")
    case (Panic e')
    with Suc.prems show ?thesis by simp
  next
    case (Ok r)
    obtain p' w' where r: "r = (p', w')" by (cases r)
    with Ok Suc.prems have "iterate fuel (\<lambda>n. ctx (Suc n)) env p' w' = Crashed e" by simp
    from Suc.IH [OF this] Ok r show ?thesis by simp
  qed
qed

subsection \<open>The two ways of handling an error\<close>

text \<open>
  C7. In each of the three loops of \<^verbatim>\<open>prepare\<close> (the tables, the indexes, the rows),
  an iteration whose statement fails adds an entry to the log and goes on with the next
  iteration, as an iteration whose statement succeeds does without the entry; a failing
  schema reload adds its message to the log and \<^verbatim>\<open>prepare\<close> goes on. The world after
  \<^verbatim>\<open>prepare\<close> is the one reached when no statement and no reload fails, so the same
  calls are made in both cases, and with no failure nothing is logged. \<^verbatim>\<open>progress\<close>
  returns exactly when pivot selection, query synthesis and execution return no error
  and verification answers true; an error of the pivot query, of the synthesis or of
  the execution panics with that error, a mismatch panics with the query, and the
  worker's loop ends at the first panic, however much longer it could run.
\<close>

theorem prepare_logs_progress_panics:
  "(Intn env 10 w = (k, w1) \<and> i < k + 1 \<and> GenerateDDLCreateTable env w1 = (sql, w2) \<and>
      Exec env (SQLStmt sql) w2 = (Some e, w3) \<longrightarrow>
      create_tables env i lg w =
        create_tables env (i + 1) (lg @ [LogError ''create table failed'' (SQLStmt sql) e]) w3)
   \<and> (Intn env 10 w = (k, w1) \<and> i < k + 1 \<and> GenerateDDLCreateTable env w1 = (sql, w2) \<and>
      Exec env (SQLStmt sql) w2 = (None, w3) \<longrightarrow>
      create_tables env i lg w = create_tables env (i + 1) lg w3)
   \<and> (Intn env 10 w = (k, w1) \<and> i < k \<and> GenerateDDLCreateIndex env ddlOpt w1 = (sql, w2) \<and>
      Exec env (SQLStmt sql) w2 = (Some e, w3) \<longrightarrow>
      create_indexes env i lg w =
        create_indexes env (i + 1) (lg @ [LogError ''create index failed'' (SQLStmt sql) e]) w3)
   \<and> (Intn env 10 w = (k, w1) \<and> i < k \<and> GenerateDDLCreateIndex env ddlOpt w1 = (sql, w2) \<and>
      Exec env (SQLStmt sql) w2 = (None, w3) \<longrightarrow>
      create_indexes env i lg w = create_indexes env (i + 1) lg w3)
   \<and> (GenerateDMLInsertByTable env table w = (sql, w1) \<and>
      Exec env (SQLStmt sql) w1 = (Some e, w2) \<longrightarrow>
      insert_tables env (table # tables) lg w =
        insert_tables env tables (lg @ [LogError ''insert data failed'' (SQLStmt sql) e]) w2)
   \<and> (GenerateDMLInsertByTable env table w = (sql, w1) \<and>
      Exec env (SQLStmt sql) w1 = (None, w2) \<longrightarrow>
      insert_tables env (table # tables) lg w = insert_tables env tables lg w2)
   \<and> (create_tables env 0 [] w = (lg1, v1) \<and> ReloadSchema env v1 = (Some e, v2) \<and>
      create_indexes env 0 (lg1 @ [LogMessage ''reload data failed!'']) v2 = (lg3, v3) \<longrightarrow>
      prepare env w = insert_tables env (GetTables env v3) lg3 v3)
   \<and> (create_tables env 0 [] w = (lg1, v1) \<and> ReloadSchema env v1 = (None, v2) \<and>
      create_indexes env 0 lg1 v2 = (lg3, v3) \<longrightarrow>
      prepare env w = insert_tables env (GetTables env v3) lg3 v3)
   \<and> snd (prepare (never_failing env) w) = snd (prepare env w)
   \<and> fst (prepare (never_failing env) w) = []
   \<and> (progress ctx env p w = Ok (p', w') \<longleftrightarrow>
        (\<exists>pivotRows usedTables v1 stmt columns v2 resultRows.
           ChoosePivotedRow env p w = Ok ((pivotRows, usedTables, None), p', v1) \<and>
           GenSelectStmt env pivotRows usedTables v1 = (Inr (stmt, columns), v2) \<and>
           execSelect env stmt v2 = (Inr resultRows, w') \<and>
           verify pivotRows columns resultRows = Ok True))
   \<and> (fst (execSelect env (selectSQL t) w) = Inl e \<longrightarrow>
        pivot_loop env (t # ts) result used w = Panic (PanicErr e))
   \<and> (ChoosePivotedRow env p w = Ok ((rows, tables', None), p1, u1) \<and>
        GenSelectStmt env rows tables' u1 = (Inl e, u2) \<longrightarrow>
        progress ctx env p w = Panic (PanicErr e))
   \<and> (ChoosePivotedRow env p w = Ok ((rows, tables', None), p1, u1) \<and>
        GenSelectStmt env rows tables' u1 = (Inr (query, cols), u2) \<and>
        execSelect env query u2 = (Inl e, u3) \<longrightarrow>
        progress ctx env p w = Panic (PanicErr e))
   \<and> (ChoosePivotedRow env p w = Ok ((rows, tables', None), p1, u1) \<and>
        GenSelectStmt env rows tables' u1 = (Inr (query, cols), u2) \<and>
        execSelect env query u2 = (Inr answer, u3) \<and>
        verify rows cols answer = Ok False \<longrightarrow>
        progress ctx env p w = Panic (VerifyFailed query))
   \<and> (progress ctx env p w = Panic fatal \<longrightarrow>
        iterate (Suc fuel) ctx env p w = Crashed fatal)"
proof (intro conjI)
  show "Intn env 10 w = (k, w1) \<and> i < k + 1 \<and> GenerateDDLCreateTable env w1 = (sql, w2) \<and>
      Exec env (SQLStmt sql) w2 = (Some e, w3) \<longrightarrow>
      create_tables env i lg w =
        create_tables env (i + 1) (lg @ [LogError ''create table failed'' (SQLStmt sql) e]) w3"
    using create_tables_failed [of env w k w1 i sql w2 e w3 lg] by blast
  show "Intn env 10 w = (k, w1) \<and> i < k + 1 \<and> GenerateDDLCreateTable env w1 = (sql, w2) \<and>
      Exec env (SQLStmt sql) w2 = (None, w3) \<longrightarrow>
      create_tables env i lg w = create_tables env (i + 1) lg w3"
    using create_tables_ok [of env w k w1 i sql w2 w3 lg] by blast
  show "Intn env 10 w = (k, w1) \<and> i < k \<and> GenerateDDLCreateIndex env ddlOpt w1 = (sql, w2) \<and>
      Exec env (SQLStmt sql) w2 = (Some e, w3) \<longrightarrow>
      create_indexes env i lg w =
        create_indexes env (i + 1) (lg @ [LogError ''create index failed'' (SQLStmt sql) e]) w3"
    using create_indexes_failed [of env w k w1 i sql w2 e w3 lg] by blast
  show "Intn env 10 w = (k, w1) \<and> i < k \<and> GenerateDDLCreateIndex env ddlOpt w1 = (sql, w2) \<and>
      Exec env (SQLStmt sql) w2 = (None, w3) \<longrightarrow>
      create_indexes env i lg w = create_indexes env (i + 1) lg w3"
    using create_indexes_ok [of env w k w1 i sql w2 w3 lg] by blast
  show "GenerateDMLInsertByTable env table w = (sql, w1) \<and>
      Exec env (SQLStmt sql) w1 = (Some e, w2) \<longrightarrow>
      insert_tables env (table # tables) lg w =
        insert_tables env tables (lg @ [LogError ''insert data failed'' (SQLStmt sql) e]) w2"
    using insert_tables_failed [of env table w sql w1 e w2 tables lg] by blast
  show "GenerateDMLInsertByTable env table w = (sql, w1) \<and>
      Exec env (SQLStmt sql) w1 = (None, w2) \<longrightarrow>
      insert_tables env (table # tables) lg w = insert_tables env tables lg w2"
    using insert_tables_ok [of env table w sql w1 w2 tables lg] by blast
  show "create_tables env 0 [] w = (lg1, v1) \<and> ReloadSchema env v1 = (Some e, v2) \<and>
      create_indexes env 0 (lg1 @ [LogMessage ''reload data failed!'']) v2 = (lg3, v3) \<longrightarrow>
      prepare env w = insert_tables env (GetTables env v3) lg3 v3"
    using prepare_reload_failed [of env w lg1 v1 e v2 lg3 v3] by blast
  show "create_tables env 0 [] w = (lg1, v1) \<and> ReloadSchema env v1 = (None, v2) \<and>
      create_indexes env 0 lg1 v2 = (lg3, v3) \<longrightarrow>
      prepare env w = insert_tables env (GetTables env v3) lg3 v3"
    using prepare_reload_ok [of env w lg1 v1 v2 lg3 v3] by blast
  show "snd (prepare (never_failing env) w) = snd (prepare env w)"
    by (rule prepare_never_failing)
  show "fst (prepare (never_failing env) w) = []"
    by (rule prepare_never_failing)
  show "progress ctx env p w = Ok (p', w') \<longleftrightarrow>
        (\<exists>pivotRows usedTables v1 stmt columns v2 resultRows.
           ChoosePivotedRow env p w = Ok ((pivotRows, usedTables, None), p', v1) \<and>
           GenSelectStmt env pivotRows usedTables v1 = (Inr (stmt, columns), v2) \<and>
           execSelect env stmt v2 = (Inr resultRows, w') \<and>
           verify pivotRows columns resultRows = Ok True)"
    by (rule progress_Ok_iff)
  show "fst (execSelect env (selectSQL t) w) = Inl e \<longrightarrow>
        pivot_loop env (t # ts) result used w = Panic (PanicErr e)"
    by (intro impI) (rule pivot_loop_select_error)
  show "ChoosePivotedRow env p w = Ok ((rows, tables', None), p1, u1) \<and>
        GenSelectStmt env rows tables' u1 = (Inl e, u2) \<longrightarrow>
        progress ctx env p w = Panic (PanicErr e)"
    by (auto simp: progress_Panic(2))
  show "ChoosePivotedRow env p w = Ok ((rows, tables', None), p1, u1) \<and>
        GenSelectStmt env rows tables' u1 = (Inr (query, cols), u2) \<and>
        execSelect env query u2 = (Inl e, u3) \<longrightarrow>
        progress ctx env p w = Panic (PanicErr e)"
    by (auto simp: progress_Panic(3))
  show "ChoosePivotedRow env p w = Ok ((rows, tables', None), p1, u1) \<and>
        GenSelectStmt env rows tables' u1 = (Inr (query, cols), u2) \<and>
        execSelect env query u2 = (Inr answer, u3) \<and>
        verify rows cols answer = Ok False \<longrightarrow>
        progress ctx env p w = Panic (VerifyFailed query)"
    by (auto simp: progress_Panic(4))
  show "progress ctx env p w = Panic fatal \<longrightarrow>
        iterate (Suc fuel) ctx env p w = Crashed fatal"
    by simp
qed

text \<open>
  Two table creation statements fail, are logged, and the index and the rows are
  still made. When everything fails, the two tables, the reload, the index and the
  rows are each logged, and a batch of two inserts logs both. An iteration whose
  result set lacks the pivot row panics, and the worker crashes on it.
\<close>

theorem prepare_logs_progress_panics_witness:
  "prepare rejecting_create_table []
     = ([LogError ''create table failed'' ''CREATE TABLE t (a INT)'' ''syntax error'',
         LogError ''create table failed'' ''CREATE TABLE t (a INT)'' ''syntax error''], [])
   \<and> prepare (never_failing rejecting_create_table) [] = ([], [])
   \<and> prepare rejecting_everything []
     = ([LogError ''create table failed'' ''CREATE TABLE t (a INT)'' ''refused'',
         LogError ''create table failed'' ''CREATE TABLE t (a INT)'' ''refused'',
         LogMessage ''reload data failed!'',
         LogError ''create index failed'' ''CREATE INDEX i ON t (a)'' ''refused'',
         LogError ''insert data failed'' ''INSERT INTO t VALUES (1)'' ''refused''], [])
   \<and> insert_tables rejecting_everything [''t'', ''u''] [] []
     = ([LogError ''insert data failed'' ''INSERT INTO t VALUES (1)'' ''refused'',
         LogError ''insert data failed'' ''INSERT INTO t VALUES (1)'' ''refused''], [])
   \<and> progress (\<lambda>n. False) scripted
        \<lparr>DBName = ''test'', Tables = \<lparr>elems = [mk_Table ''t''], spare = []\<rparr>\<rparr>
        [[[mk_cell ''a'' ''1'']], [[mk_cell ''a'' ''2'']]]
       = Panic (VerifyFailed ''SELECT * FROM t'')
   \<and> iterate (Suc 2) (\<lambda>n. False) scripted
        \<lparr>DBName = ''test'', Tables = \<lparr>elems = [mk_Table ''t''], spare = []\<rparr>\<rparr>
        [[[mk_cell ''a'' ''1'']], [[mk_cell ''a'' ''2'']]]
       = Crashed (VerifyFailed ''SELECT * FROM t'')"
proof -
  have log: "prepare rejecting_create_table []
     = ([LogError ''create table failed'' ''CREATE TABLE t (a INT)'' ''syntax error'',
         LogError ''create table failed'' ''CREATE TABLE t (a INT)'' ''syntax error''], [])"
    by (simp add: prepare_def create_tables.simps create_indexes.simps
        rejecting_create_table_def scripted_def Intn_def ddlOpt_def)
  have log_all: "prepare rejecting_everything []
     = ([LogError ''create table failed'' ''CREATE TABLE t (a INT)'' ''refused'',
         LogError ''create table failed'' ''CREATE TABLE t (a INT)'' ''refused'',
         LogMessage ''reload data failed!'',
         LogError ''create index failed'' ''CREATE INDEX i ON t (a)'' ''refused'',
         LogError ''insert data failed'' ''INSERT INTO t VALUES (1)'' ''refused''], [])"
    by (simp add: prepare_def create_tables.simps create_indexes.simps
        rejecting_everything_def scripted_def Intn_def ddlOpt_def)
  have gen: "GenerateDMLInsertByTable rejecting_everything ''t'' []
      = (\<lparr>SQLStmt = ''INSERT INTO t VALUES (1)''\<rparr>, [])"
    and ex: "Exec rejecting_everything (SQLStmt \<lparr>SQLStmt = ''INSERT INTO t VALUES (1)''\<rparr>) []
      = (Some ''refused'', [])"
    by (simp_all add: rejecting_everything_def scripted_def)
  have rest: "insert_tables rejecting_everything [''u'']
      ([] @ [LogError ''insert data failed''
               (SQLStmt \<lparr>SQLStmt = ''INSERT INTO t VALUES (1)''\<rparr>) ''refused'']) []
     = ([LogError ''insert data failed'' ''INSERT INTO t VALUES (1)'' ''refused'',
         LogError ''insert data failed'' ''INSERT INTO t VALUES (1)'' ''refused''], [])"
    by (simp add: rejecting_everything_def scripted_def)
  have mismatch: "progress (\<lambda>n. False) scripted
        \<lparr>DBName = ''test'', Tables = \<lparr>elems = [mk_Table ''t''], spare = []\<rparr>\<rparr>
        [[[mk_cell ''a'' ''1'']], [[mk_cell ''a'' ''2'']]]
       = Panic (VerifyFailed ''SELECT * FROM t'')"
    by (simp add: progress_def ChoosePivotedRow_def ChoosePivotedRow_usedTables_def
        ChoosePivotedRow_count_def GenSelectStmt_def execSelect_def scripted_def
        slice_to_def mk_Table_def mk_cell_def verify_def print_originRow_def checkRow_def
        lookup_def)
  show ?thesis
    using prepare_logs_progress_panics
      [where env = rejecting_create_table and w = "[]"]
      prepare_logs_progress_panics
      [where env = rejecting_everything and w = "[]" and table = "''t''"
         and tables = "[''u'']" and lg = "[]"
         and sql = "\<lparr>SQLStmt = ''INSERT INTO t VALUES (1)''\<rparr>" and ?w1.0 = "[]"
         and e = "''refused''" and ?w2.0 = "[]"]
      prepare_logs_progress_panics
      [where env = scripted and w = "[[[mk_cell ''a'' ''1'']], [[mk_cell ''a'' ''2'']]]"
         and ctx = "\<lambda>n. False"
         and p = "\<lparr>DBName = ''test'', Tables = \<lparr>elems = [mk_Table ''t''], spare = []\<rparr>\<rparr>"
         and fatal = "VerifyFailed ''SELECT * FROM t''" and fuel = 2]
      log log_all gen ex rest mismatch
    by (cases "prepare (never_failing rejecting_create_table) []")
      (simp del: insert_tables.simps)
qed

text \<open>
  C8. The worker reads the cancellation signal once, before the first iteration: if it
  is set then, the worker retires; if not, the worker is the inner loop, whose outcome
  does not depend on the signal at any time, which never retires, and which ends only
  with the panic of an iteration, after which more time changes nothing.
\<close>

theorem worker_checks_cancellation_once:
  "(ctx 0 \<longrightarrow> worker fuel ctx env p w = Retired)
   \<and> (\<not> ctx 0 \<longrightarrow> worker fuel ctx env p w = iterate fuel ctx env p w \<and>
                     worker fuel ctx env p w \<noteq> Retired)
   \<and> (ctx' 0 = ctx 0 \<longrightarrow> worker fuel ctx' env p w = worker fuel ctx env p w)
   \<and> (\<not> ctx 0 \<and> worker fuel ctx env p w = Crashed fatal \<longrightarrow>
        (\<exists>p' w'. progress ctx env p' w' = Panic fatal) \<and>
        worker (fuel + extra) ctx env p w = Crashed fatal)"
proof (intro conjI impI)
  assume "ctx 0"
  then show "worker fuel ctx env p w = Retired" by (simp add: worker_def)
next
  assume "\<not> ctx 0"
  then show "worker fuel ctx env p w = iterate fuel ctx env p w" by (simp add: worker_def)
next
  assume "\<not> ctx 0"
  then show "worker fuel ctx env p w \<noteq> Retired"
    using iterate_not_Retired [of fuel ctx env p w] by (simp add: worker_def)
next
  assume "ctx' 0 = ctx 0"
  then show "worker fuel ctx' env p w = worker fuel ctx env p w"
    using iterate_ctx [of fuel ctx' env p w ctx] by (simp add: worker_def)
next
  assume a: "\<not> ctx 0 \<and> worker fuel ctx env p w = Crashed fatal"
  then have c: "iterate fuel ctx env p w = Crashed fatal" by (auto simp: worker_def)
  from iterate_Crashed [OF c] show "\<exists>p' w'. progress ctx env p' w' = Panic fatal" .
  from iterate_crash_stable [OF c, of extra] a
  show "worker (fuel + extra) ctx env p w = Crashed fatal" by (simp add: worker_def)
qed

text \<open>
  The signal is set right after the first check: the worker completes an iteration and
  crashes in the second one, whose result set lacks the pivot row. Set before the
  first check, it retires the worker.
\<close>

theorem worker_checks_cancellation_once_witness:
  "worker 3 (\<lambda>n. 0 < n) scripted
      \<lparr>DBName = ''test'', Tables = \<lparr>elems = [mk_Table ''t''], spare = []\<rparr>\<rparr>
      [[[mk_cell ''a'' ''1'']], [[mk_cell ''a'' ''1'']],
       [[mk_cell ''a'' ''1'']], [[mk_cell ''a'' ''2'']]]
     = Crashed (VerifyFailed ''SELECT * FROM t'')
   \<and> worker 1 (\<lambda>n. 0 < n) scripted
      \<lparr>DBName = ''test'', Tables = \<lparr>elems = [mk_Table ''t''], spare = []\<rparr>\<rparr>
      [[[mk_cell ''a'' ''1'']], [[mk_cell ''a'' ''1'']],
       [[mk_cell ''a'' ''1'']], [[mk_cell ''a'' ''2'']]]
     = Iterating \<lparr>DBName = ''test'', Tables = \<lparr>elems = [mk_Table ''t''], spare = []\<rparr>\<rparr>
        [[[mk_cell ''a'' ''1'']], [[mk_cell ''a'' ''2'']]]
   \<and> worker 3 (\<lambda>n. True) scripted
      \<lparr>DBName = ''test'', Tables = \<lparr>elems = [mk_Table ''t''], spare = []\<rparr>\<rparr>
      [[[mk_cell ''a'' ''1'']], [[mk_cell ''a'' ''1'']],
       [[mk_cell ''a'' ''1'']], [[mk_cell ''a'' ''2'']]]
     = Retired"
proof -
  let ?p = "\<lparr>DBName = ''test'', Tables = \<lparr>elems = [mk_Table ''t''], spare = []\<rparr>\<rparr>"
  have step: "\<And>ctx a b rest. progress ctx scripted ?p ([[mk_cell ''a'' a]] # [[mk_cell ''a'' b]] # rest)
       = (if a = b then Ok (?p, rest) else Panic (VerifyFailed ''SELECT * FROM t''))"
    by (simp add: progress_def ChoosePivotedRow_def ChoosePivotedRow_usedTables_def
        ChoosePivotedRow_count_def GenSelectStmt_def execSelect_def scripted_def
        slice_to_def mk_Table_def mk_cell_def verify_def print_originRow_def checkRow_def
        lookup_def)
  have three: "(3::nat) = Suc (Suc (Suc 0))" by simp
  show ?thesis
    using worker_checks_cancellation_once
      [of "\<lambda>n. 0 < n" 3 scripted ?p
          "[[[mk_cell ''a'' ''1'']], [[mk_cell ''a'' ''1'']],
            [[mk_cell ''a'' ''1'']], [[mk_cell ''a'' ''2'']]]"
          "\<lambda>n. False" "VerifyFailed ''SELECT * FROM t''" 0]
      worker_checks_cancellation_once
      [of "\<lambda>n. True" 3 scripted ?p
          "[[[mk_cell ''a'' ''1'']], [[mk_cell ''a'' ''1'']],
            [[mk_cell ''a'' ''1'']], [[mk_cell ''a'' ''2'']]]"]
    by (simp add: worker_def step three del: progress_def)
qed

end
